theory Spec2Isabelle
  imports Complex_Main
begin

section \<open>Data model of the timeline widget (src/Timeline.js)\<close>

text \<open>
  JavaScript numbers are modelled as \<^typ>\<open>real\<close> (times, pixel coordinates) and
  \<^typ>\<open>int\<close> (array indices); NaN and infinities are outside the model. A property
  that holds either \<open>null\<close> or a number is a \<^typ>\<open>real option\<close>; \<open>num\<close> is
  JavaScript's coercion of such a value in arithmetic and in \<open><\<close>, \<open>></\<close>
  (\<open>null\<close> counts as 0).
\<close>

definition num :: "real option \<Rightarrow> real" where
  "num v = (case v of None \<Rightarrow> 0 | Some r \<Rightarrow> r)"

datatype tool = ORDER | SELECT | MOVE | CREATE | DELETE | REPEAT | SCROLL | SHIFT | SPLIT

text \<open>Sizing constants of the prototype (lines 222-228).\<close>

definition trackHeight :: real where "trackHeight = 50"
definition trackPadding :: real where "trackPadding = 10"
definition sliderHeight :: real where "sliderHeight = 25"
definition keyHeight :: real where "keyHeight = 25"

record pos =
  pos_x :: real
  pos_y :: real

record segment =
  seg_startTime :: real
  seg_endTime :: real
  selected :: bool

text \<open>
  A track handle (\<open>Timeline.TextTrack\<close>, whose class is not in this file). \<open>oid\<close> is the
  identity of the JavaScript object, which \<open>===\<close> compares. \<open>track_id\<close> is \<open>track.id\<close>,
  which reads \<open>textTrack.label\<close> (\<open>alterTextTrack\<close> renames a track by assigning
  \<open>track.textTrack.label\<close> and rekeying \<open>trackIndices\<close>). \<open>visibleSegments\<close> is the
  value of the getter of that name, the only segment collection this file reads.
\<close>

record track =
  oid :: nat
  track_id :: string
  audioId :: "string option"
  visibleSegments :: "segment list"

text \<open>
  An element of the JavaScript array \<open>this.tracks\<close>: a track object, an explicit
  \<open>undefined\<close>, or a hole left by an assignment past the end of the array.
\<close>

datatype slot = Hole | Undef | Obj track

record audioTrack =
  audio_id :: string
  references :: int

datatype waveform = WaveForm nat

datatype wave = Wave waveform | AudioTrackInstance audioTrack

record selection =
  dragged :: bool
  startPos :: pos

datatype active = NoElement | SelectionElement selection | TrackElement nat

datatype interval = NoInterval | AutoScroll | AutoSizeL | AutoSizeR

text \<open>
  A callback handed to \<open>requestFrame\<close>: \<open>render.bind(this, stable)\<close> or
  \<open>renderTrack.bind(this, track)\<close> (the track by its object identity).
\<close>

datatype callback = RenderCb bool | RenderTrackCb nat

datatype payload = NoData | ValData "real option" | TrackData track | SegData segment

text \<open>
  What a listener called by \<open>emit\<close> receives, together with what it can read of the
  AB-repeat state at that moment (listeners run synchronously inside \<open>emit\<close>).
\<close>

record emission =
  ev_name :: string
  ev_data :: payload
  ev_abRepeatOn :: bool
  ev_repeatA :: "real option"
  ev_repeatB :: "real option"

datatype error = Error string | TypeError

text \<open>
  The widget instance. The last four fields are the environment: the animation-frame
  callbacks the browser holds, the last frame id it handed out, the drawing passes that
  have run, and the notifications emitted so far. The canvas heights always equal
  \<open>height\<close> and are not separate fields.
\<close>

record timeline =
  width :: real
  tl_length :: real
  abRepeatOn :: bool
  imagesComplete :: bool
  multi :: bool
  currentTool :: tool
  selectedSegments :: "segment list"
  tracks :: "slot list"
  audio :: "string \<rightharpoonup> audioTrack"
  trackIndices :: "string \<rightharpoonup> int"
  activeElement :: active
  activeIndex :: int
  sliderActive :: bool
  scrubActive :: bool
  view_startTime :: real
  view_endTime :: real
  repeatA :: "real option"
  repeatB :: "real option"
  abRepeatSetting :: bool
  height :: real
  requestedTrack :: "nat option"
  requestedFrame :: nat
  mouseDownFlag :: bool
  mouseDownPos :: pos
  mousePos :: pos
  scrollInterval :: interval
  timeMarkerPos :: "real option"
  frames :: "(nat \<times> callback) list"
  lastFrame :: nat
  drawn :: "callback list"
  emitted :: "emission list"

text \<open>
  The outcome of a call: it returns, or it throws and leaves the widget in the state
  reached at the \<open>throw\<close>.
\<close>

datatype outcome = Ok timeline | Throw error timeline

definition and_then :: "outcome \<Rightarrow> (timeline \<Rightarrow> outcome) \<Rightarrow> outcome" where
  "and_then r f = (case r of Ok s \<Rightarrow> f s | Throw e s \<Rightarrow> Throw e s)"

definition state_of :: "outcome \<Rightarrow> timeline" where
  "state_of r = (case r of Ok s \<Rightarrow> s | Throw e s \<Rightarrow> s)"

section \<open>Event bus (lines 232-240)\<close>

text \<open>\<open>emit\<close> calls every listener of the event; a listener's exception is swallowed.\<close>

definition emit :: "string \<Rightarrow> payload \<Rightarrow> timeline \<Rightarrow> timeline" where
  "emit evt data s =
     s\<lparr>emitted := emitted s @
        [\<lparr>ev_name = evt, ev_data = data, ev_abRepeatOn = abRepeatOn s,
          ev_repeatA = repeatA s, ev_repeatB = repeatB s\<rparr>]\<rparr>"

section \<open>Render scheduler (lines 696-772)\<close>

text \<open>
  \<open>requestFrame\<close> registers a callback with the browser and returns a fresh non-zero
  id; \<open>cancelFrame\<close> drops the callback registered under an id.
\<close>

definition requestFrame :: "callback \<Rightarrow> timeline \<Rightarrow> nat \<times> timeline" where
  "requestFrame cb s =
     (Suc (lastFrame s),
      s\<lparr>frames := frames s @ [(Suc (lastFrame s), cb)], lastFrame := Suc (lastFrame s)\<rparr>)"

definition cancelFrame :: "nat \<Rightarrow> timeline \<Rightarrow> timeline" where
  "cancelFrame i s = s\<lparr>frames := filter (\<lambda>(j, cb). j \<noteq> i) (frames s)\<rparr>"

text \<open>
  The frame callback \<open>render(stable)\<close> (lines 729-751). A drawing pass is recorded in
  \<open>drawn\<close>; the full pass calls \<open>track.render()\<close> on every element of \<open>tracks\<close>, which
  throws on an \<open>undefined\<close> element (\<open>forEach\<close> skips holes).
\<close>

definition render_cb :: "bool \<Rightarrow> timeline \<Rightarrow> outcome" where
  "render_cb stab s =
     (if imagesComplete s then
        (if \<not> stab \<and> Undef \<in> set (tracks s) then Throw TypeError s
         else Ok (s\<lparr>drawn := drawn s @ [RenderCb stab],
                    requestedTrack := None, requestedFrame := 0\<rparr>))
      else
        (let s1 = s\<lparr>requestedTrack := None\<rparr>;
             (i, s2) = requestFrame (RenderCb stab) s1
         in Ok (s2\<lparr>requestedFrame := i\<rparr>)))"

text \<open>The frame callback \<open>renderTrack(track)\<close> (lines 696-727).\<close>

definition renderTrack_cb :: "nat \<Rightarrow> timeline \<Rightarrow> outcome" where
  "renderTrack_cb t s =
     Ok (s\<lparr>drawn := drawn s @ [RenderTrackCb t], requestedTrack := None, requestedFrame := 0\<rparr>)"

definition run_callback :: "callback \<Rightarrow> timeline \<Rightarrow> outcome" where
  "run_callback cb s = (case cb of RenderCb stab \<Rightarrow> render_cb stab s
                                 | RenderTrackCb t \<Rightarrow> renderTrack_cb t s)"

text \<open>
  One animation frame: the browser runs the callbacks that were pending when the frame
  began; what they register runs in a later frame. An exception thrown by a callback is
  reported by the browser and leaves the state as it was at the \<open>throw\<close>.
\<close>

definition fire_frame :: "timeline \<Rightarrow> timeline" where
  "fire_frame s =
     fold (\<lambda>(i, cb) s'. state_of (run_callback cb s')) (frames s) (s\<lparr>frames := []\<rparr>)"

text \<open>\<open>Proto.renderTrack\<close> (lines 753-763).\<close>

definition Proto_renderTrack :: "nat \<Rightarrow> timeline \<Rightarrow> timeline" where
  "Proto_renderTrack t s =
     (if requestedFrame s \<noteq> 0 then
        (if requestedTrack s = Some t then s
         else
           (let s1 = cancelFrame (requestedFrame s) s;
                s2 = s1\<lparr>requestedTrack := None\<rparr>;
                (i, s3) = requestFrame (RenderCb True) s2
            in s3\<lparr>requestedFrame := i\<rparr>))
      else
        (let s1 = s\<lparr>requestedTrack := Some t\<rparr>;
             (i, s2) = requestFrame (RenderTrackCb t) s1
         in s2\<lparr>requestedFrame := i\<rparr>))"

text \<open>\<open>Proto.render\<close> (lines 765-772).\<close>

definition Proto_render :: "bool \<Rightarrow> timeline \<Rightarrow> timeline" where
  "Proto_render stab s =
     (if requestedTrack s \<noteq> None then cancelFrame (requestedFrame s) s
      else if requestedFrame s = 0 then
        (let s1 = s\<lparr>requestedTrack := None\<rparr>;
             (i, s2) = requestFrame (RenderCb stab) s1
         in s2\<lparr>requestedFrame := i\<rparr>)
      else s)"

text \<open>
  The widget as the constructor leaves it (lines 27-203) for a canvas \<open>w\<close> pixels wide and
  default parameters, before its closing \<open>this.render()\<close>, and after it.
\<close>

definition blank :: "real \<Rightarrow> bool \<Rightarrow> timeline" where
  "blank w img =
     \<lparr>width = w, tl_length = 1800, abRepeatOn = False, imagesComplete = img,
      multi = False, currentTool = SELECT, selectedSegments = [], tracks = [],
      audio = Map.empty, trackIndices = Map.empty, activeElement = NoElement,
      activeIndex = -1, sliderActive = False, scrubActive = False,
      view_startTime = 0, view_endTime = 60, repeatA = None, repeatB = None,
      abRepeatSetting = False, height = keyHeight + trackPadding + sliderHeight,
      requestedTrack = None, requestedFrame = 0, mouseDownFlag = False,
      mouseDownPos = \<lparr>pos_x = 0, pos_y = 0\<rparr>, mousePos = \<lparr>pos_x = 0, pos_y = 0\<rparr>,
      scrollInterval = NoInterval, timeMarkerPos = Some 0,
      frames = [], lastFrame = 0, drawn = [], emitted = []\<rparr>"

definition new_Timeline :: "real \<Rightarrow> bool \<Rightarrow> timeline" where
  "new_Timeline w img = Proto_render False (blank w img)"

section \<open>Viewport (class \<open>Timeline.View\<close>, not in this file)\<close>

text \<open>
  Modelled from the spec: the View class is missing from src/. The spec (4.1) gives
  \<open>zoom = (endTime - startTime) / widthPixels\<close>, \<open>timeToPixel(t) = (t - startTime) / zoom\<close>
  and \<open>pixelToTime(x) = startTime + x * zoom\<close>; \<open>view.length\<close> is the width of the window
  in seconds.
\<close>

definition view_length :: "timeline \<Rightarrow> real" where
  "view_length s = view_endTime s - view_startTime s"

definition zoom :: "timeline \<Rightarrow> real" where
  "zoom s = (view_endTime s - view_startTime s) / width s"

definition timeToPixel :: "timeline \<Rightarrow> real \<Rightarrow> real" where
  "timeToPixel s t = (t - view_startTime s) / zoom s"

definition pixelToTime :: "timeline \<Rightarrow> real \<Rightarrow> real" where
  "pixelToTime s px = view_startTime s + px * zoom s"


section \<open>Track registry (lines 374-457)\<close>

text \<open>
  Reading and writing \<open>this.tracks[i]\<close>. A read outside the array, of a hole or of an
  explicit \<open>undefined\<close> gives \<open>undefined\<close> (\<open>None\<close>). A write past the end extends the
  array and leaves holes; a write at a negative index sets a property that is not an
  element and leaves the array as it is.
\<close>

definition js_at :: "slot list \<Rightarrow> int \<Rightarrow> track option" where
  "js_at xs i =
     (if 0 \<le> i \<and> nat i < length xs
      then (case xs ! nat i of Obj t \<Rightarrow> Some t | _ \<Rightarrow> None) else None)"

definition to_slot :: "track option \<Rightarrow> slot" where
  "to_slot v = (case v of None \<Rightarrow> Undef | Some t \<Rightarrow> Obj t)"

definition js_assign :: "slot list \<Rightarrow> int \<Rightarrow> track option \<Rightarrow> slot list" where
  "js_assign xs i v =
     (if i < 0 then xs
      else if nat i < length xs then xs[nat i := to_slot v]
      else xs @ replicate (nat i - length xs) Hole @ [to_slot v])"

text \<open>
  \<open>indexFromPos\<close> (lines 392-403): the loop over the bands, \<open>n\<close> counting the tracks
  still to visit, \<open>tp\<close> and \<open>bt\<close> the loop's \<open>top\<close> and \<open>bottom\<close>.
\<close>

fun indexFrom :: "nat \<Rightarrow> real \<Rightarrow> int \<Rightarrow> real \<Rightarrow> int" where
  "indexFrom 0 py i tp = -1"
| "indexFrom (Suc n) py i tp =
     (let bt = tp + trackHeight
      in if tp \<le> py \<and> py \<le> bt then i
         else indexFrom n py (i + 1) (bt + trackPadding))"

definition indexFromPos :: "pos \<Rightarrow> timeline \<Rightarrow> int" where
  "indexFromPos p s = indexFrom (length (tracks s)) (pos_y p) 0 (keyHeight + trackPadding)"

definition trackFromPos :: "pos \<Rightarrow> timeline \<Rightarrow> track option" where
  "trackFromPos p s = js_at (tracks s) (indexFromPos p s)"

text \<open>
  \<open>this.trackIndices\<close> and \<open>this.audio\<close> are plain objects (\<open>{}\<close>, lines 123-124) used as
  dictionaries. The model keeps their own properties as a partial map and writes out the
  two places where a plain object is not a dictionary. \<open>obj.hasOwnProperty(k)\<close> first
  looks \<open>hasOwnProperty\<close> up on the object itself: once the key \<open>hasOwnProperty\<close> is
  stored (a number or an audio track, not a function) the call throws a TypeError. And
  \<open>obj['__proto__'] = v\<close> runs the setter inherited from \<open>Object.prototype\<close>, which
  ignores a number and makes an object the prototype: no own property is stored. (When an
  audio track becomes the prototype of \<open>this.audio\<close>, its properties are inherited ones;
  the functions modelled here read the table only under \<open>hasOwnProperty\<close>.)
\<close>

definition shadowed :: "(string \<rightharpoonup> 'v) \<Rightarrow> bool" where
  "shadowed m = (m ''hasOwnProperty'' \<noteq> None)"

definition js_put :: "(string \<rightharpoonup> 'v) \<Rightarrow> string \<Rightarrow> 'v \<Rightarrow> (string \<rightharpoonup> 'v)" where
  "js_put m k v = (if k = ''__proto__'' then m else m(k \<mapsto> v))"

text \<open>\<open>hasTextTrack\<close> (lines 413-415).\<close>

definition hasTextTrack :: "string \<Rightarrow> timeline \<Rightarrow> error + bool" where
  "hasTextTrack name s =
     (if shadowed (trackIndices s) then Inl TypeError
      else Inr (trackIndices s name \<noteq> None))"

text \<open>
  \<open>swaptracks\<close> (lines 405-411). \<open>n.render()\<close> and \<open>commandStack.removeEvents\<close> belong to
  classes outside this file and write none of the fields modelled here; reading \<open>o.id\<close>
  throws when \<open>o\<close> is \<open>undefined\<close>, after the array was written.
\<close>

definition swaptracks :: "track \<Rightarrow> track option \<Rightarrow> timeline \<Rightarrow> outcome" where
  "swaptracks n o_opt s =
     (let s1 = (case trackIndices s (track_id n) of
                  None \<Rightarrow> s
                | Some i \<Rightarrow> s\<lparr>tracks := js_assign (tracks s) i (Some n)\<rparr>)
      in case o_opt of
           None \<Rightarrow> Throw TypeError s1
         | Some ot \<Rightarrow>
             Ok (emit ''addtrack'' (TrackData n) (emit ''removetrack'' (TrackData ot) s1)))"

text \<open>
  \<open>addTextTrack\<close> (lines 417-433). The argument \<open>n\<close> is the handle that
  \<open>new Timeline.TextTrack(this, textTrack, mime)\<close> builds, so \<open>track_id n\<close> is both
  \<open>textTrack.label\<close> and \<open>track.id\<close>. Line 418 calls \<open>hasOwnProperty\<close> only when
  \<open>overwrite\<close> is not set (\<open>&&\<close> evaluates its right side only then); line 420 calls it
  always.
\<close>

definition addTextTrack :: "track \<Rightarrow> bool \<Rightarrow> timeline \<Rightarrow> outcome" where
  "addTextTrack n overwrite s =
     (if \<not> overwrite \<and> shadowed (trackIndices s) then Throw TypeError s
      else if \<not> overwrite \<and> trackIndices s (track_id n) \<noteq> None
      then Throw (Error ''Track name already in use.'') s
      else if shadowed (trackIndices s) then Throw TypeError s
      else
        (case trackIndices s (track_id n) of
           Some i \<Rightarrow> swaptracks n (js_at (tracks s) i) s
         | None \<Rightarrow>
             (let s1 = s\<lparr>trackIndices := js_put (trackIndices s) (track_id n)
                                            (int (length (tracks s))),
                         tracks := tracks s @ [Obj n],
                         height := height s + (trackHeight + trackPadding)\<rparr>
              in Ok (emit ''addtrack'' (TrackData n) (Proto_render False s1)))))"

text \<open>
  The renumbering loop of \<open>removeTextTrack\<close> (lines 444-446), over the elements from
  \<open>loc\<close> on: it stops at the first element that is not a track.
\<close>

fun renumber :: "slot list \<Rightarrow> int \<Rightarrow> (string \<rightharpoonup> int) \<Rightarrow> (string \<rightharpoonup> int)" where
  "renumber (Obj t # ts) i m = renumber ts (i + 1) (js_put m (track_id t) i)"
| "renumber ts i m = m"

text \<open>
  \<open>track.audioId\<close> as a property name: the value of a track bound to no audio track is
  the \<open>null\<close> that \<open>unsetAudioTrack\<close> assigns (line 594), which names the property
  \<open>null\<close>.
\<close>

definition prop_name :: "string option \<Rightarrow> string" where
  "prop_name aid = (case aid of None \<Rightarrow> ''null'' | Some a \<Rightarrow> a)"

text \<open>Line 440 once \<open>hasOwnProperty\<close> has been called: \<open>this.audio[aid].references--\<close>.\<close>

definition release_audio :: "string option \<Rightarrow> timeline \<Rightarrow> timeline" where
  "release_audio aid s =
     (case audio s (prop_name aid) of
        None \<Rightarrow> s
      | Some au \<Rightarrow>
          s\<lparr>audio := (audio s)(prop_name aid \<mapsto> au\<lparr>references := references au - 1\<rparr>)\<rparr>)"

text \<open>
  \<open>removeTextTrack\<close> (lines 435-457). Reading \<open>this.tracks[loc].audioId\<close> throws when the
  element is not a track, and \<open>this.audio.hasOwnProperty(aid)\<close> throws when the audio
  table stores the key \<open>hasOwnProperty\<close>; both before anything is written.
\<close>

definition removeTextTrack :: "string \<Rightarrow> timeline \<Rightarrow> outcome" where
  "removeTextTrack name s =
     (if shadowed (trackIndices s) then Throw TypeError s
      else
        (case trackIndices s name of
           None \<Rightarrow> Ok s
         | Some loc \<Rightarrow>
             (case js_at (tracks s) loc of
                None \<Rightarrow> Throw TypeError s
              | Some tr \<Rightarrow>
                  (if shadowed (audio s) then Throw TypeError s
                   else
                     (let s1 = release_audio (audioId tr) s;
                          ts = take (nat loc) (tracks s1) @ drop (Suc (nat loc)) (tracks s1);
                          m = renumber (drop (nat loc) ts) loc ((trackIndices s1)(name := None));
                          s2 = s1\<lparr>tracks := ts, trackIndices := m,
                                  height := height s1 - (trackHeight + trackPadding)\<rparr>
                      in Ok (emit ''removetrack'' (TrackData tr) (Proto_render False s2)))))))"

section \<open>Collaborators outside this file\<close>

text \<open>
  The slider (\<open>Timeline.Slider\<close>), the per-track pointer handlers and segment operations
  (\<open>Timeline.TextTrack\<close>), the audio-track constructor (\<open>Timeline.AudioTrack\<close>) and the
  method \<open>center\<close> of the viewport (\<open>Timeline.View\<close>) are not in src/. Their effect on
  the widget is a parameter of the model: \<open>run X c s\<close> is the widget after collaborator
  call \<open>c\<close>, tracks named by object identity.
\<close>

datatype cue = Cue real real string

datatype call =
    Slider_mouseDown pos
  | Slider_mouseMove pos
  | Slider_mouseUp pos
  | Slider_setMiddle real
  | Track_mouseDown nat pos
  | Track_mouseMove nat pos
  | Track_mouseUp nat pos
  | Track_click nat pos
  | Track_add nat cue bool
  | View_center real

record collab =
  run :: "call \<Rightarrow> timeline \<Rightarrow> timeline"
  slider_containsPoint :: "pos \<Rightarrow> timeline \<Rightarrow> bool"
  slider_middle :: "timeline \<Rightarrow> real"
  AudioTrack_new :: "waveform \<Rightarrow> string \<Rightarrow> audioTrack"

section \<open>AB-repeat range and playhead (lines 98-112, 787-859)\<close>

definition abRepeatSet :: "timeline \<Rightarrow> bool" where
  "abRepeatSet s = (\<not> (repeatA s = None \<or> repeatB s = None))"

text \<open>The setter of \<open>abRepeatOn\<close> (lines 103-111).\<close>

definition set_abRepeatOn :: "bool \<Rightarrow> timeline \<Rightarrow> timeline" where
  "set_abRepeatOn on s =
     (let on' = (abRepeatSet s \<and> on)
      in if abRepeatOn s \<noteq> on'
         then emit (if on' then ''abRepeatEnabled'' else ''abRepeatDisabled'') NoData
                (Proto_render False (s\<lparr>abRepeatOn := on'\<rparr>))
         else s)"

text \<open>\<open>updateABPoints\<close> (lines 831-834) and \<open>resetABPoints\<close> (lines 836-839).\<close>

definition updateABPoints :: "pos \<Rightarrow> timeline \<Rightarrow> timeline" where
  "updateABPoints p s =
     Proto_render False
       (if pos_x p < timeToPixel s ((num (repeatA s) + num (repeatB s)) / 2)
        then s\<lparr>repeatA := Some (pixelToTime s (pos_x p))\<rparr>
        else s\<lparr>repeatB := Some (pixelToTime s (pos_x p))\<rparr>)"

definition resetABPoints :: "pos \<Rightarrow> timeline \<Rightarrow> timeline" where
  "resetABPoints p s =
     emit ''abRepeatSet'' NoData
       (s\<lparr>repeatA := Some (pixelToTime s (pos_x p)), repeatB := Some (pixelToTime s (pos_x p))\<rparr>)"

text \<open>\<open>clearRepeat\<close> (lines 841-849) and \<open>setRepeat\<close> (lines 851-859).\<close>

definition clearRepeat :: "timeline \<Rightarrow> timeline" where
  "clearRepeat s =
     (let s1 = s\<lparr>repeatA := None, repeatB := None, abRepeatSetting := False\<rparr>;
          s2 = (if abRepeatOn s1 then set_abRepeatOn False s1 else Proto_render False s1)
      in emit ''abRepeatUnset'' NoData s2)"

definition setRepeat :: "real \<Rightarrow> real \<Rightarrow> timeline \<Rightarrow> timeline" where
  "setRepeat a b s =
     (let s1 = s\<lparr>repeatA := Some (min a b), repeatB := Some (max a b), abRepeatSetting := False\<rparr>;
          s2 = (if \<not> abRepeatOn s1 then set_abRepeatOn True s1 else Proto_render False s1)
      in emit ''abRepeatSet'' NoData s2)"

text \<open>
  The setter of \<open>currentTime\<close> (lines 789-815). After the AB-repeat wrap-around the local
  \<open>time\<close> holds \<open>this.repeatA\<close>. \<open>tracks.forEach\<close> reads \<open>track.textTrack\<close> of every
  element and throws on an explicit \<open>undefined\<close>; the text tracks' own \<open>currentTime\<close>
  is outside this file.
\<close>

definition set_currentTime :: "collab \<Rightarrow> real \<Rightarrow> timeline \<Rightarrow> outcome" where
  "set_currentTime X time s =
     (if Some time = timeMarkerPos s then Ok s
      else
        (let (tm, s1) = (if abRepeatOn s \<and> num (repeatB s) < time
                         then (repeatA s, emit ''jump'' (ValData (repeatA s)) s)
                         else (Some time, s));
             (stab, s2) =
               (if num tm < view_startTime s1
                  then (False, run X (View_center (num tm - view_length s1 / 4)) s1)
                else if view_endTime s1 < num tm
                  then (False, run X (View_center (num tm + view_length s1 / 4)) s1)
                else (True, s1));
             s3 = s2\<lparr>timeMarkerPos := tm\<rparr>
         in if Undef \<in> set (tracks s3) then Throw TypeError s3
            else Ok (Proto_render stab (emit ''timeupdate'' (ValData tm) s3))))"

section \<open>Audio table and segments (lines 501-512, 600-603)\<close>

text \<open>
  \<open>addAudioTrack\<close> (lines 501-512) and \<open>addSegment\<close> (lines 600-603). Both begin with a
  call of \<open>hasOwnProperty\<close> on their table.
\<close>

definition addAudioTrack :: "collab \<Rightarrow> wave \<Rightarrow> string \<Rightarrow> timeline \<Rightarrow> outcome" where
  "addAudioTrack X wv name s =
     (if shadowed (audio s) then Throw TypeError s
      else if audio s name \<noteq> None then Throw (Error ''Track with that id already loaded.'') s
      else
        (let (tr, name') = (case wv of
                              AudioTrackInstance a \<Rightarrow> (a, audio_id a)
                            | Wave w \<Rightarrow> (AudioTrack_new X w name, name))
         in Ok (Proto_render False (s\<lparr>audio := js_put (audio s) name' tr\<rparr>))))"

definition addSegment :: "collab \<Rightarrow> string \<Rightarrow> cue \<Rightarrow> bool \<Rightarrow> timeline \<Rightarrow> outcome" where
  "addSegment X tid c sel s =
     (if shadowed (trackIndices s) then Throw TypeError s
      else
        (case trackIndices s tid of
           None \<Rightarrow> Ok s
         | Some i \<Rightarrow>
             (case js_at (tracks s) i of
                None \<Rightarrow> Throw TypeError s
              | Some t \<Rightarrow> Ok (run X (Track_add (oid t) c sel) s))))"

section \<open>Rubber-band selection (lines 1243-1317)\<close>

text \<open>
  JavaScript's \<open>%\<close> on numbers (the result has the sign of the dividend) and the bounds of
  \<open>Array.prototype.slice\<close> (a negative bound counts from the end).
\<close>

definition js_rem :: "real \<Rightarrow> real \<Rightarrow> real" where
  "js_rem a m = a - m * of_int (if a / m < 0 then \<lceil>a / m\<rceil> else \<lfloor>a / m\<rfloor>)"

definition slice_bound :: "nat \<Rightarrow> int \<Rightarrow> nat" where
  "slice_bound len b = (if b < 0 then nat (max (int len + b) 0) else min (nat b) len)"

text \<open>
  The inner \<open>forEach\<close> over \<open>track.visibleSegments\<close> (lines 1305-1312): the segments as
  they are afterwards, and the widget with the pushes and notifications.
\<close>

fun select_segments ::
  "real \<Rightarrow> real \<Rightarrow> segment list \<Rightarrow> timeline \<Rightarrow> segment list \<times> timeline" where
  "select_segments st en [] s = ([], s)"
| "select_segments st en (g # gs) s =
     (if selected g \<or> en \<le> seg_startTime g \<or> seg_endTime g \<le> st
      then (let (gs', s') = select_segments st en gs s in (g # gs', s'))
      else
        (let g' = g\<lparr>selected := True\<rparr>;
             s1 = emit ''select'' (SegData g') (s\<lparr>selectedSegments := selectedSegments s @ [g']\<rparr>);
             (gs', s') = select_segments st en gs s1
         in (g' # gs', s')))"

text \<open>
  The outer \<open>forEach\<close> over the sliced tracks (line 1304): holes are skipped, an explicit
  \<open>undefined\<close> throws (the flag) after the tracks before it were handled.
\<close>

fun select_tracks ::
  "real \<Rightarrow> real \<Rightarrow> slot list \<Rightarrow> timeline \<Rightarrow> slot list \<times> timeline \<times> bool" where
  "select_tracks st en [] s = ([], s, False)"
| "select_tracks st en (Hole # ts) s =
     (let (ts', s', thrown) = select_tracks st en ts s in (Hole # ts', s', thrown))"
| "select_tracks st en (Undef # ts) s = (Undef # ts, s, True)"
| "select_tracks st en (Obj t # ts) s =
     (let (gs, s1) = select_segments st en (visibleSegments t) s;
          (ts', s', thrown) = select_tracks st en ts s1
      in (Obj (t\<lparr>visibleSegments := gs\<rparr>) # ts', s', thrown))"

text \<open>The first and last track index of the drag rectangle (lines 1299-1303).\<close>

definition band_first :: "real \<Rightarrow> int" where
  "band_first tp =
     (let kheight = keyHeight + trackPadding;
          theight = trackHeight + trackPadding;
          i = max 0 (tp - kheight)
      in if js_rem i theight < trackHeight then \<lfloor>i / theight\<rfloor> else \<lceil>i / theight\<rceil>)"

definition band_last :: "real \<Rightarrow> timeline \<Rightarrow> int" where
  "band_last bt s =
     (let kheight = keyHeight + trackPadding;
          theight = trackHeight + trackPadding
      in if height s - sliderHeight \<le> bt then int (length (tracks s)) - 1
         else \<lfloor>(bt - kheight) / theight\<rfloor>)"

text \<open>
  \<open>Selection.prototype.mouseUp\<close> (lines 1274-1317). \<open>tl.restore()\<close> only draws. On a plain
  click the segment under the pointer is toggled or the track's selection is cleared by
  the track's own code (\<open>Track_click\<close>).
\<close>

definition Selection_mouseUp :: "collab \<Rightarrow> selection \<Rightarrow> pos \<Rightarrow> timeline \<Rightarrow> outcome" where
  "Selection_mouseUp X sel epos s =
     (if \<not> dragged sel then
        (case trackFromPos epos s of
           None \<Rightarrow> Ok s
         | Some t \<Rightarrow> Ok (Proto_renderTrack (oid t) (run X (Track_click (oid t) epos) s)))
      else
        (let spos = startPos sel;
             st = pixelToTime s (min (pos_x spos) (pos_x epos));
             en = pixelToTime s (max (pos_x spos) (pos_x epos));
             i = band_first (min (pos_y spos) (pos_y epos));
             n = band_last (max (pos_y spos) (pos_y epos)) s;
             a = slice_bound (length (tracks s)) i;
             b = slice_bound (length (tracks s)) (n + 1);
             (ts', s', thrown) = select_tracks st en (take (b - a) (drop a (tracks s))) s;
             s'' = s'\<lparr>tracks := take a (tracks s) @ ts' @ drop (a + length ts') (tracks s)\<rparr>
         in if thrown then Throw TypeError s'' else Ok (Proto_render False s'')))"

section \<open>Pointer handlers (lines 913-948, 994-1132)\<close>

definition initScroll :: "timeline \<Rightarrow> timeline" where
  "initScroll s = s\<lparr>scrollInterval := AutoScroll\<rparr>"

definition initResize :: "collab \<Rightarrow> timeline \<Rightarrow> timeline" where
  "initResize X s =
     (let diff = pos_x (mouseDownPos s) - slider_middle X s
      in if diff < 0 then s\<lparr>scrollInterval := AutoSizeL\<rparr>
         else if 0 < diff then s\<lparr>scrollInterval := AutoSizeR\<rparr>
         else s)"

text \<open>
  The ORDER branch of \<open>mouseMove\<close> (lines 1011-1024) for the index \<open>i\<close> under the
  pointer: reading \<open>swap.id\<close> or \<open>active.id\<close> throws when that element is not a track,
  after the array was written.
\<close>

definition reorder :: "int \<Rightarrow> timeline \<Rightarrow> outcome" where
  "reorder i s =
     (if i \<noteq> -1 \<and> i \<noteq> activeIndex s then
        (let a = activeIndex s;
             swap = js_at (tracks s) i;
             active = js_at (tracks s) a;
             s1 = s\<lparr>tracks := js_assign (js_assign (tracks s) i active) a swap\<rparr>
         in case swap of
              None \<Rightarrow> Throw TypeError s1
            | Some sw \<Rightarrow>
                (let s2 = s1\<lparr>trackIndices := js_put (trackIndices s1) (track_id sw) a\<rparr>
                 in case active of
                      None \<Rightarrow> Throw TypeError s2
                    | Some ac \<Rightarrow>
                        Ok (Proto_render False
                              (s2\<lparr>trackIndices := js_put (trackIndices s2) (track_id ac) i,
                                  activeIndex := i\<rparr>))))
      else Ok s)"

text \<open>\<open>mouseMove\<close> (lines 994-1034); \<open>updateCursor\<close> only changes the cursor shape.\<close>

definition mouseMove :: "collab \<Rightarrow> pos \<Rightarrow> timeline \<Rightarrow> outcome" where
  "mouseMove X p s0 =
     (let s = s0\<lparr>mousePos := p\<rparr>
      in if scrollInterval s \<noteq> NoInterval then Ok s
         else if scrubActive s then
           (let i = pixelToTime s (pos_x p)
            in set_currentTime X i (emit ''jump'' (ValData (Some i)) s))
         else if currentTool s = REPEAT \<and> abRepeatSetting s then
           Ok (Proto_render False (updateABPoints p s))
         else if currentTool s = ORDER \<and> activeIndex s \<noteq> -1 then
           reorder (indexFromPos p s) s
         else if sliderActive s then Ok (run X (Slider_mouseMove p) s)
         else (case activeElement s of
                 NoElement \<Rightarrow> Ok s
               | SelectionElement sel \<Rightarrow>
                   Ok (s\<lparr>activeElement := SelectionElement (sel\<lparr>dragged := True\<rparr>)\<rparr>)
               | TrackElement t \<Rightarrow> Ok (run X (Track_mouseMove t p) s)))"

text \<open>\<open>mouseInactive\<close> (lines 1054-1073); redrawing the audio tracks only draws.\<close>

definition mouseInactive :: "collab \<Rightarrow> pos \<Rightarrow> timeline \<Rightarrow> outcome" where
  "mouseInactive X p s0 =
     (let s = s0\<lparr>mouseDownFlag := False, activeIndex := -1\<rparr>
      in if scrubActive s then Ok (s\<lparr>scrubActive := False\<rparr>)
         else if sliderActive s then Ok ((run X (Slider_mouseUp p) s)\<lparr>sliderActive := False\<rparr>)
         else if scrollInterval s \<noteq> NoInterval then Ok (s\<lparr>scrollInterval := NoInterval\<rparr>)
         else (case activeElement s of
                 NoElement \<Rightarrow> Ok s
               | SelectionElement sel \<Rightarrow>
                   and_then (Selection_mouseUp X sel p s)
                     (\<lambda>s'. Ok (s'\<lparr>activeElement := NoElement\<rparr>))
               | TrackElement t \<Rightarrow>
                   Ok ((run X (Track_mouseUp t p) s)\<lparr>activeElement := NoElement\<rparr>)))"

text \<open>\<open>mouseUp\<close> (lines 1036-1046) and \<open>mouseOut\<close> (lines 1048-1052).\<close>

definition mouseUp :: "collab \<Rightarrow> nat \<Rightarrow> pos \<Rightarrow> timeline \<Rightarrow> outcome" where
  "mouseUp X button p s =
     (if 0 < button \<or> \<not> mouseDownFlag s then Ok s
      else
        (let s1 = (if currentTool s = REPEAT
                   then set_abRepeatOn (repeatA s \<noteq> repeatB s) (s\<lparr>abRepeatSetting := False\<rparr>)
                   else s)
         in mouseInactive X p s1))"

definition mouseOut :: "collab \<Rightarrow> nat \<Rightarrow> pos \<Rightarrow> timeline \<Rightarrow> outcome" where
  "mouseOut X button p s =
     (if 0 < button \<or> \<not> mouseDownFlag s then Ok s else mouseInactive X p s)"

text \<open>
  \<open>mouseDown\<close> (lines 1075-1132): the slider strip first, then the time ruler, then the
  dispatch on the current tool. \<open>track_down\<close> is the \<open>default\<close> case of the switch, which
  SELECT falls through to when multi-select is off.
\<close>

definition track_down :: "collab \<Rightarrow> pos \<Rightarrow> timeline \<Rightarrow> timeline" where
  "track_down X p s =
     (case trackFromPos p s of
        None \<Rightarrow> s\<lparr>activeElement := NoElement\<rparr>
      | Some t \<Rightarrow> run X (Track_mouseDown (oid t) p) (s\<lparr>activeElement := TrackElement (oid t)\<rparr>))"

definition mouseDown :: "collab \<Rightarrow> nat \<Rightarrow> pos \<Rightarrow> timeline \<Rightarrow> outcome" where
  "mouseDown X button p s0 =
     (if 0 < button then Ok s0
      else
        (let s = s0\<lparr>mouseDownFlag := True, mouseDownPos := p, mousePos := p\<rparr>
         in if height s - sliderHeight - trackPadding < pos_y p then
              (if slider_containsPoint X p s
               then Ok ((run X (Slider_mouseDown p) s)\<lparr>sliderActive := True\<rparr>)
               else if currentTool s = SCROLL then Ok (initResize X s)
               else
                 (let s1 = Proto_render False (run X (Slider_setMiddle (pos_x p)) s)
                  in if height s1 - sliderHeight < pos_y p
                     then Ok ((run X (Slider_mouseDown p) s1)\<lparr>sliderActive := True\<rparr>)
                     else Ok s1))
            else if pos_y p < keyHeight + trackPadding then
              (let s1 = s\<lparr>scrubActive := True\<rparr>;
                   i = pixelToTime s1 (pos_x p)
               in set_currentTime X i (emit ''jump'' (ValData (Some i)) s1))
            else
              (case currentTool s of
                 REPEAT \<Rightarrow>
                   (let s1 = s\<lparr>abRepeatSetting := True\<rparr>
                    in Ok (if abRepeatSet s1 then updateABPoints p s1 else resetABPoints p s1))
               | SCROLL \<Rightarrow> Ok (initScroll s)
               | ORDER \<Rightarrow> Ok (s\<lparr>activeIndex := indexFromPos p s\<rparr>)
               | SELECT \<Rightarrow>
                   (if multi s
                    then Ok (s\<lparr>activeElement := SelectionElement \<lparr>dragged = False, startPos = p\<rparr>\<rparr>)
                    else Ok (track_down X p s))
               | _ \<Rightarrow> Ok (track_down X p s))))"

section \<open>The widget as a transition system\<close>

text \<open>
  What can happen to a widget: a call of its interface, an assignment to a property
  with a setter (or to the plain field \<open>currentTool\<close>), a pointer event, or an animation
  frame. Handlers run to completion one after the other; an exception that escapes a
  handler leaves the widget as it was at the \<open>throw\<close>, and the next event finds it so.
\<close>

datatype event =
    Call_addTextTrack track bool
  | Call_removeTextTrack string
  | Call_addAudioTrack wave string
  | Call_addSegment string cue bool
  | Call_render bool
  | Call_renderTrack nat
  | Call_clearRepeat
  | Call_setRepeat real real
  | Set_currentTime real
  | Set_abRepeatOn bool
  | Set_currentTool tool
  | On_mouseDown nat pos
  | On_mouseMove pos
  | On_mouseUp nat pos
  | On_mouseOut nat pos
  | On_frame

definition perform :: "collab \<Rightarrow> event \<Rightarrow> timeline \<Rightarrow> outcome" where
  "perform X ev s =
     (case ev of
        Call_addTextTrack n overwrite \<Rightarrow> addTextTrack n overwrite s
      | Call_removeTextTrack name \<Rightarrow> removeTextTrack name s
      | Call_addAudioTrack wv name \<Rightarrow> addAudioTrack X wv name s
      | Call_addSegment tid c sel \<Rightarrow> addSegment X tid c sel s
      | Call_render stab \<Rightarrow> Ok (Proto_render stab s)
      | Call_renderTrack t \<Rightarrow> Ok (Proto_renderTrack t s)
      | Call_clearRepeat \<Rightarrow> Ok (clearRepeat s)
      | Call_setRepeat a b \<Rightarrow> Ok (setRepeat a b s)
      | Set_currentTime time \<Rightarrow> set_currentTime X time s
      | Set_abRepeatOn on \<Rightarrow> Ok (set_abRepeatOn on s)
      | Set_currentTool tool' \<Rightarrow> Ok (s\<lparr>currentTool := tool'\<rparr>)
      | On_mouseDown button p \<Rightarrow> mouseDown X button p s
      | On_mouseMove p \<Rightarrow> mouseMove X p s
      | On_mouseUp button p \<Rightarrow> mouseUp X button p s
      | On_mouseOut button p \<Rightarrow> mouseOut X button p s
      | On_frame \<Rightarrow> Ok (fire_frame s))"

definition after :: "collab \<Rightarrow> event list \<Rightarrow> timeline \<Rightarrow> timeline" where
  "after X evs s = fold (\<lambda>ev s'. state_of (perform X ev s')) evs s"

text \<open>
  A widget on a 600 pixel canvas with its images loaded, after the first frame has
  drawn it: nothing is pending.
\<close>

definition idle :: timeline where
  "idle = fire_frame (new_Timeline 600 True)"

section \<open>Vocabulary of the statements and fixtures\<close>

text \<open>The notifications of a log, by name and payload.\<close>

definition names_of :: "emission list \<Rightarrow> (string \<times> payload) list" where
  "names_of es = map (\<lambda>e. (ev_name e, ev_data e)) es"

text \<open>
  Collaborators that leave the widget alone, for running the model on concrete inputs;
  the audio-track constructor keeps the id it is given.
\<close>

definition quiet :: collab where
  "quiet = \<lparr>run = (\<lambda>c s. s), slider_containsPoint = (\<lambda>p s. False),
            slider_middle = (\<lambda>s. 0),
            AudioTrack_new = (\<lambda>w name. \<lparr>audio_id = name, references = 0\<rparr>)\<rparr>"

text \<open>Two track handles built over text tracks labelled "en", and a widget holding the first.\<close>

definition en1 :: track where
  "en1 = \<lparr>oid = 1, track_id = ''en'', audioId = None, visibleSegments = []\<rparr>"

definition en2 :: track where
  "en2 = \<lparr>oid = 2, track_id = ''en'', audioId = None, visibleSegments = []\<rparr>"

definition with_en :: timeline where
  "with_en = after quiet [Call_addTextTrack en1 False] idle"

text \<open>
  The AB-repeat invariant on what is observable: the enabled flag implies that both
  points are set, in the widget as it stands (\<open>ab_inv\<close>) and in what each listener saw
  when it was notified (\<open>seen_ok\<close>).
\<close>

definition ab_inv :: "timeline \<Rightarrow> bool" where
  "ab_inv s = (abRepeatOn s \<longrightarrow> repeatA s \<noteq> None \<and> repeatB s \<noteq> None)"

definition seen_ok :: "emission \<Rightarrow> bool" where
  "seen_ok e = (ev_abRepeatOn e \<longrightarrow> ev_repeatA e \<noteq> None \<and> ev_repeatB e \<noteq> None)"

definition ab_ok :: "timeline \<Rightarrow> bool" where
  "ab_ok s = (ab_inv s \<and> list_all seen_ok (emitted s))"

text \<open>Collaborators that respect the invariant (they do not null a point of an enabled range).\<close>

definition collab_keeps_ab :: "collab \<Rightarrow> bool" where
  "collab_keeps_ab X = (\<forall>c s. ab_ok s \<longrightarrow> ab_ok (run X c s))"

text \<open>
  A REPEAT gesture on the widget holding one track, 600 pixels wide with the view at
  [0,60] (10 pixels per second): pointer down at x = 100 over the track, dragged to
  x = 200, released there.
\<close>

definition repeat_gesture :: "event list" where
  "repeat_gesture =
     [Set_currentTool REPEAT,
      On_mouseDown 0 \<lparr>pos_x = 100, pos_y = 50\<rparr>,
      On_mouseMove \<lparr>pos_x = 200, pos_y = 50\<rparr>,
      On_mouseUp 0 \<lparr>pos_x = 200, pos_y = 50\<rparr>]"

text \<open>
  The pointer is over the tracks: neither in the slider strip nor in the time ruler,
  the two tests \<open>mouseDown\<close> makes before it looks at the tool (lines 1090 and 1105).
\<close>

definition over_tracks :: "pos \<Rightarrow> timeline \<Rightarrow> bool" where
  "over_tracks p s =
     (keyHeight + trackPadding \<le> pos_y p \<and> pos_y p \<le> height s - sliderHeight - trackPadding)"

text \<open>
  The widget holding one track with the REPEAT tool chosen, and the same in the middle of
  a drag that has set the range [10,20].
\<close>

definition repeat_ready :: timeline where
  "repeat_ready = with_en\<lparr>currentTool := REPEAT\<rparr>"

definition repeat_dragging :: timeline where
  "repeat_dragging =
     repeat_ready\<lparr>repeatA := Some 10, repeatB := Some 20, abRepeatSetting := True,
                  mouseDownFlag := True\<rparr>"

text \<open>
  The registry invariant: the index map is the inverse of the track array. Every element
  of the array is a track whose id the map sends to the element's position, and every key
  of the map is the id of the track that stands at the position it is sent to.
\<close>

definition registry_ok :: "timeline \<Rightarrow> bool" where
  "registry_ok s =
     ((\<forall>i < length (tracks s).
         \<exists>t. tracks s ! i = Obj t \<and> trackIndices s (track_id t) = Some (int i))
      \<and> (\<forall>k i. trackIndices s k = Some i \<longrightarrow>
            0 \<le> i \<and> nat i < length (tracks s)
            \<and> (\<exists>t. tracks s ! nat i = Obj t \<and> track_id t = k)))"

text \<open>
  Three tracks "a", "b", "c" and a reordering gesture interrupted by a removal: with the
  ORDER tool, pointer down on the third band (y = 160), track "a" removed by a call of
  the interface while the button is held, then two pointer moves over the first band
  (y = 40).
\<close>

definition tr_a :: track where
  "tr_a = \<lparr>oid = 11, track_id = ''a'', audioId = None, visibleSegments = []\<rparr>"

definition tr_b :: track where
  "tr_b = \<lparr>oid = 12, track_id = ''b'', audioId = None, visibleSegments = []\<rparr>"

definition tr_c :: track where
  "tr_c = \<lparr>oid = 13, track_id = ''c'', audioId = None, visibleSegments = []\<rparr>"

definition order_ready :: timeline where
  "order_ready =
     after quiet [Set_currentTool ORDER, Call_addTextTrack tr_a False,
                  Call_addTextTrack tr_b False, Call_addTextTrack tr_c False] idle"

definition order_down :: timeline where
  "order_down = after quiet [On_mouseDown 0 \<lparr>pos_x = 100, pos_y = 160\<rparr>] order_ready"

definition order_removed :: timeline where
  "order_removed = after quiet [Call_removeTextTrack ''a''] order_down"

definition order_moved :: timeline where
  "order_moved = after quiet [On_mouseMove \<lparr>pos_x = 100, pos_y = 40\<rparr>] order_removed"

definition order_moved_twice :: timeline where
  "order_moved_twice = after quiet [On_mouseMove \<lparr>pos_x = 100, pos_y = 40\<rparr>] order_moved"

text \<open>
  Vocabulary for the rubber-band selection. A segment is hit by the time range
  \<open>(st, en)\<close> when it is not selected yet and its own range overlaps it; \<open>mark\<close> selects
  the segments hit; \<open>newly\<close> lists, in order, the segments of a track that become
  selected, as they are afterwards. Band \<open>k\<close> lies in the vertical span of a rectangle
  from \<open>tp\<close> to \<open>bt\<close> when the rectangle's top is above the lower edge of the band and its
  bottom is at or below the upper edge of the band, or in the slider strip.
\<close>

definition hit :: "real \<Rightarrow> real \<Rightarrow> segment \<Rightarrow> bool" where
  "hit st en g = (\<not> selected g \<and> seg_startTime g < en \<and> st < seg_endTime g)"

definition mark :: "real \<Rightarrow> real \<Rightarrow> segment \<Rightarrow> segment" where
  "mark st en g = (if hit st en g then g\<lparr>selected := True\<rparr> else g)"

definition mark_track :: "real \<Rightarrow> real \<Rightarrow> track \<Rightarrow> track" where
  "mark_track st en t = t\<lparr>visibleSegments := map (mark st en) (visibleSegments t)\<rparr>"

definition newly :: "real \<Rightarrow> real \<Rightarrow> track \<Rightarrow> segment list" where
  "newly st en t = map (\<lambda>g. g\<lparr>selected := True\<rparr>) (filter (hit st en) (visibleSegments t))"

definition in_span :: "timeline \<Rightarrow> real \<Rightarrow> real \<Rightarrow> nat \<Rightarrow> bool" where
  "in_span s tp bt k =
     (tp < keyHeight + trackPadding + real k * (trackHeight + trackPadding) + trackHeight
      \<and> (height s - sliderHeight \<le> bt
          \<or> keyHeight + trackPadding + real k * (trackHeight + trackPadding) \<le> bt))"

text \<open>
  Two tracks with segments, and a drag from (50, 40) to (100, 60): the times 5 to 10,
  vertically inside the first band.
\<close>

definition sub1 :: track where
  "sub1 = \<lparr>oid = 21, track_id = ''en'', audioId = None,
           visibleSegments =
             [\<lparr>seg_startTime = 5, seg_endTime = 8, selected = False\<rparr>,
              \<lparr>seg_startTime = 7, seg_endTime = 9, selected = True\<rparr>,
              \<lparr>seg_startTime = 30, seg_endTime = 33, selected = False\<rparr>]\<rparr>"

definition sub2 :: track where
  "sub2 = \<lparr>oid = 22, track_id = ''fr'', audioId = None,
           visibleSegments = [\<lparr>seg_startTime = 6, seg_endTime = 9, selected = False\<rparr>]\<rparr>"

definition band_demo :: timeline where
  "band_demo = after quiet [Call_addTextTrack sub1 False, Call_addTextTrack sub2 False] idle"

definition band_sel :: selection where
  "band_sel = \<lparr>dragged = True, startPos = \<lparr>pos_x = 50, pos_y = 40\<rparr>\<rparr>"

text \<open>
  A widget holding the track "en" and a track whose text track is labelled
  "hasOwnProperty", and a second handle over a text track of that label.
\<close>

definition hop1 :: track where
  "hop1 = \<lparr>oid = 31, track_id = ''hasOwnProperty'', audioId = None, visibleSegments = []\<rparr>"

definition hop2 :: track where
  "hop2 = \<lparr>oid = 32, track_id = ''hasOwnProperty'', audioId = None, visibleSegments = []\<rparr>"

definition with_en_hop :: timeline where
  "with_en_hop = after quiet [Call_addTextTrack en1 False, Call_addTextTrack hop1 False] idle"

text \<open>
  A widget after \<open>addAudioTrack(wave, "hasOwnProperty")\<close>, and a widget with a redraw of
  track 1 pending.
\<close>

definition with_audio_hop :: timeline where
  "with_audio_hop = after quiet [Call_addAudioTrack (Wave (WaveForm 0)) ''hasOwnProperty''] idle"

definition track_pending :: timeline where
  "track_pending = after quiet [Call_renderTrack 1] idle"

text \<open>
  A widget at rest whose AB-repeat range [10,20] is enabled and whose view stands at
  [60,120]; the playhead is at 0.
\<close>

definition looped :: timeline where
  "looped = (after quiet [Call_setRepeat 10 20, On_frame] idle)
              \<lparr>view_startTime := 60, view_endTime := 120\<rparr>"

section \<open>Render scheduler: coalescing of redraw requests\<close>

lemmas scheduler_defs =
  idle_def new_Timeline_def blank_def Proto_render_def Proto_renderTrack_def
  requestFrame_def cancelFrame_def fire_frame_def run_callback_def render_cb_def
  renderTrack_cb_def state_of_def

lemma idle_scheduler:
  "frames idle = [] \<and> requestedFrame idle = 0 \<and> requestedTrack idle = None
   \<and> drawn idle = [RenderCb False]"
  by (simp add: scheduler_defs)

text \<open>
  From rest, a track redraw schedules one track-only callback and a full redraw one
  full-frame callback; each runs in the next frame and leaves the scheduler at rest.
\<close>

lemma renderTrack_from_rest:
  "requestedFrame s = 0 \<Longrightarrow>
   frames (Proto_renderTrack t s) = frames s @ [(Suc (lastFrame s), RenderTrackCb t)]
   \<and> requestedTrack (Proto_renderTrack t s) = Some t
   \<and> requestedFrame (Proto_renderTrack t s) = Suc (lastFrame s)"
  by (simp add: Proto_renderTrack_def requestFrame_def)

lemma render_from_rest:
  "requestedFrame s = 0 \<Longrightarrow> requestedTrack s = None \<Longrightarrow>
   frames (Proto_render stab s) = frames s @ [(Suc (lastFrame s), RenderCb stab)]
   \<and> requestedTrack (Proto_render stab s) = None
   \<and> requestedFrame (Proto_render stab s) = Suc (lastFrame s)"
  by (simp add: Proto_render_def requestFrame_def)

text \<open>A second request for the track that is pending, or a full request while a full
  frame is pending, changes nothing.\<close>

lemma renderTrack_same_track:
  "requestedFrame s \<noteq> 0 \<Longrightarrow> requestedTrack s = Some t \<Longrightarrow> Proto_renderTrack t s = s"
  by (simp add: Proto_renderTrack_def)

lemma render_while_full_pending:
  "requestedFrame s \<noteq> 0 \<Longrightarrow> requestedTrack s = None \<Longrightarrow> Proto_render stab s = s"
  by (simp add: Proto_render_def)

text \<open>
  A request for another track than the pending one cancels the pending callback and
  registers \<open>render.bind(this, true)\<close>: one callback, of the stable pass.
\<close>

lemma renderTrack_other_track:
  "requestedFrame s \<noteq> 0 \<Longrightarrow> requestedTrack s \<noteq> Some t \<Longrightarrow>
   frames (Proto_renderTrack t s) =
     filter (\<lambda>(j, cb). j \<noteq> requestedFrame s) (frames s) @ [(Suc (lastFrame s), RenderCb True)]
   \<and> requestedTrack (Proto_renderTrack t s) = None"
  by (simp add: Proto_renderTrack_def requestFrame_def cancelFrame_def)

text \<open>
  A full request while a track redraw is pending only cancels the pending callback:
  nothing is registered, and the two scheduler fields keep their values.
\<close>

lemma render_while_track_pending:
  "requestedTrack s = Some t \<Longrightarrow>
   frames (Proto_render stab s) = filter (\<lambda>(j, cb). j \<noteq> requestedFrame s) (frames s)
   \<and> requestedTrack (Proto_render stab s) = Some t
   \<and> requestedFrame (Proto_render stab s) = requestedFrame s"
  by (simp add: Proto_render_def cancelFrame_def)

text \<open>
  Claim C1 (full redraw requested while a single-track redraw is pending). The claim
  asks that the pending track-only callback be cancelled and a full-frame pass be
  scheduled and run in its place. On the code, with track 7 pending on a widget at rest,
  \<open>render()\<close> cancels the track callback and registers nothing: no callback is pending,
  the next frame draws nothing, the scheduler still records track 7 and the cancelled
  frame id as pending, and a further \<open>render()\<close> registers nothing either.
\<close>

theorem render_after_renderTrack_schedules_nothing:
  "frames (Proto_renderTrack 7 idle) = [(2, RenderTrackCb 7)]
   \<and> frames (Proto_render False (Proto_renderTrack 7 idle)) = []
   \<and> drawn (fire_frame (Proto_render False (Proto_renderTrack 7 idle))) = drawn idle
   \<and> requestedTrack (fire_frame (Proto_render False (Proto_renderTrack 7 idle))) = Some 7
   \<and> requestedFrame (fire_frame (Proto_render False (Proto_renderTrack 7 idle))) = 2
   \<and> frames (Proto_render False (fire_frame (Proto_render False (Proto_renderTrack 7 idle)))) = []"
  by (simp add: scheduler_defs)

text \<open>
  Claim C2 (track redraw requests before the frame fires). Requesting the pending track
  again changes nothing (\<open>renderTrack_same_track\<close>), and requesting another track leaves
  one callback (\<open>renderTrack_other_track\<close>). The claim also asks that a track request
  while a full frame is pending be a no-op. On the code, with the full pass
  \<open>render(false)\<close> pending on a widget at rest, \<open>renderTrack(7)\<close> cancels it and registers
  \<open>render(true)\<close>: the next frame runs the stable pass (playhead and slider only) and the
  full pass never runs.
\<close>

theorem renderTrack_replaces_pending_full_frame:
  "frames (Proto_render False idle) = [(2, RenderCb False)]
   \<and> frames (Proto_renderTrack 7 (Proto_render False idle)) = [(3, RenderCb True)]
   \<and> Proto_renderTrack 7 (Proto_render False idle) \<noteq> Proto_render False idle
   \<and> drawn (fire_frame (Proto_renderTrack 7 (Proto_render False idle)))
       = drawn idle @ [RenderCb True]
   \<and> drawn (fire_frame (Proto_render False idle)) = drawn idle @ [RenderCb False]"
proof -
  have a: "frames (Proto_render False idle) = [(2, RenderCb False)]"
    by (simp add: scheduler_defs)
  have b: "frames (Proto_renderTrack 7 (Proto_render False idle)) = [(3, RenderCb True)]"
    by (simp add: scheduler_defs)
  have c: "Proto_renderTrack 7 (Proto_render False idle) \<noteq> Proto_render False idle"
    using a b by auto
  have d: "drawn (fire_frame (Proto_renderTrack 7 (Proto_render False idle)))
             = drawn idle @ [RenderCb True]"
    by (simp add: scheduler_defs)
  have e: "drawn (fire_frame (Proto_render False idle)) = drawn idle @ [RenderCb False]"
    by (simp add: scheduler_defs)
  from a b c d e show ?thesis by blast
qed

section \<open>Track registry: adding under a registered label\<close>

lemma names_of_emit [simp]:
  "names_of (emitted (emit evt d s)) = names_of (emitted s) @ [(evt, d)]"
  by (simp add: names_of_def emit_def)

lemma js_at_SomeD:
  "js_at xs i = Some t \<Longrightarrow> 0 \<le> i \<and> nat i < length xs \<and> xs ! nat i = Obj t"
  by (auto simp: js_at_def split: if_splits slot.splits)

lemmas table_defs = shadowed_def js_put_def

lemma with_en_registry:
  "tracks with_en = [Obj en1] \<and> trackIndices with_en ''en'' = Some 0 \<and> height with_en = 120"
  by (simp add: with_en_def after_def perform_def addTextTrack_def scheduler_defs emit_def
      en1_def trackHeight_def trackPadding_def keyHeight_def sliderHeight_def table_defs)

lemma with_en_unshadowed: "trackIndices with_en ''hasOwnProperty'' = None"
  by (simp add: with_en_def after_def perform_def addTextTrack_def scheduler_defs emit_def
      en1_def table_defs)

text \<open>
  Adding under a registered label, on a widget whose index map does not store the key
  \<open>hasOwnProperty\<close>. Without \<open>overwrite\<close> the call throws "Track name already in use."
  and the widget is exactly as before (track array, index map and height included). With
  \<open>overwrite\<close>, where the label is registered at index \<open>i\<close> and the old handle \<open>ot\<close>
  stands there, the call returns; the new handle stands at index \<open>i\<close> and every other
  element of the array is as before, the index map and the height are unchanged, and the
  notifications added are 'removetrack' for the old handle followed by 'addtrack' for the
  new one.
\<close>

theorem addTextTrack_registered_label:
  "trackIndices s ''hasOwnProperty'' = None \<longrightarrow>
   (trackIndices s (track_id n) \<noteq> None \<longrightarrow>
      addTextTrack n False s = Throw (Error ''Track name already in use.'') s)
   \<and> (trackIndices s (track_id n) = Some i \<and> js_at (tracks s) i = Some ot \<longrightarrow>
        (\<exists>s'. addTextTrack n True s = Ok s'
           \<and> tracks s' = (tracks s)[nat i := Obj n]
           \<and> trackIndices s' = trackIndices s
           \<and> height s' = height s
           \<and> names_of (emitted s') =
               names_of (emitted s) @ [(''removetrack'', TrackData ot), (''addtrack'', TrackData n)]))"
proof (intro conjI impI)
  assume "trackIndices s ''hasOwnProperty'' = None" "trackIndices s (track_id n) \<noteq> None"
  then show "addTextTrack n False s = Throw (Error ''Track name already in use.'') s"
    by (simp add: addTextTrack_def shadowed_def)
next
  assume u: "trackIndices s ''hasOwnProperty'' = None"
  assume h: "trackIndices s (track_id n) = Some i \<and> js_at (tracks s) i = Some ot"
  then have r: "0 \<le> i" "nat i < length (tracks s)"
    using js_at_SomeD by blast+
  from u h r show "\<exists>s'. addTextTrack n True s = Ok s'
           \<and> tracks s' = (tracks s)[nat i := Obj n]
           \<and> trackIndices s' = trackIndices s
           \<and> height s' = height s
           \<and> names_of (emitted s') =
               names_of (emitted s) @ [(''removetrack'', TrackData ot), (''addtrack'', TrackData n)]"
    by (simp add: addTextTrack_def swaptracks_def js_assign_def to_slot_def shadowed_def)
       (simp add: emit_def names_of_def)
qed

theorem addTextTrack_registered_label_witness:
  "trackIndices with_en ''hasOwnProperty'' = None
   \<and> trackIndices with_en (track_id en2) = Some 0 \<and> js_at (tracks with_en) 0 = Some en1
   \<and> addTextTrack en2 False with_en = Throw (Error ''Track name already in use.'') with_en
   \<and> (\<exists>s'. addTextTrack en2 True with_en = Ok s'
         \<and> tracks s' = [Obj en2] \<and> trackIndices s' ''en'' = Some 0 \<and> height s' = 120)"
proof -
  have a: "trackIndices with_en (track_id en2) = Some 0"
    using with_en_registry by (simp add: en2_def)
  have b: "js_at (tracks with_en) 0 = Some en1"
    using with_en_registry by (simp add: js_at_def)
  show ?thesis
    using addTextTrack_registered_label [of with_en en2 0 en1] a b with_en_registry
      with_en_unshadowed
    by auto
qed

text \<open>
  Once the index map stores the key \<open>hasOwnProperty\<close>, every call of \<open>addTextTrack\<close>,
  \<open>removeTextTrack\<close> and \<open>addSegment\<close> throws a TypeError and changes nothing.
\<close>

lemma shadowed_registry_throws:
  assumes "trackIndices s ''hasOwnProperty'' \<noteq> None"
  shows "addTextTrack n ov s = Throw TypeError s"
    and "removeTextTrack name s = Throw TypeError s"
    and "addSegment X tid c sel s = Throw TypeError s"
  using assms by (simp_all add: addTextTrack_def removeTextTrack_def addSegment_def shadowed_def)

lemma with_en_hop_fields:
  "tracks with_en_hop = [Obj en1, Obj hop1]
   \<and> trackIndices with_en_hop ''en'' = Some 0
   \<and> trackIndices with_en_hop ''hasOwnProperty'' = Some 1"
  by (simp add: with_en_hop_def after_def perform_def addTextTrack_def scheduler_defs emit_def
      en1_def hop1_def table_defs)

text \<open>
  Claim C7 (adding a text track whose label is already registered): the code departs
  from the claim once a track labelled "hasOwnProperty" is registered. After
  \<open>addTextTrack\<close> of a track labelled "en" and of one labelled "hasOwnProperty", both
  labels are registered; adding "en" again throws a TypeError and not the name-in-use
  error, adding "en" with \<open>overwrite\<close> throws a TypeError and replaces nothing, and so
  does adding "hasOwnProperty" again.
\<close>

theorem addTextTrack_label_hasOwnProperty:
  "tracks with_en_hop = [Obj en1, Obj hop1]
   \<and> trackIndices with_en_hop (track_id en2) = Some 0
   \<and> trackIndices with_en_hop (track_id hop2) = Some 1
   \<and> addTextTrack en2 False with_en_hop = Throw TypeError with_en_hop
   \<and> addTextTrack en2 True with_en_hop = Throw TypeError with_en_hop
   \<and> addTextTrack hop2 False with_en_hop = Throw TypeError with_en_hop"
proof -
  have h: "trackIndices with_en_hop ''hasOwnProperty'' \<noteq> None"
    using with_en_hop_fields by simp
  have "addTextTrack en2 False with_en_hop = Throw TypeError with_en_hop"
    "addTextTrack en2 True with_en_hop = Throw TypeError with_en_hop"
    "addTextTrack hop2 False with_en_hop = Throw TypeError with_en_hop"
    using h by (simp_all add: addTextTrack_def shadowed_def)
  then show ?thesis
    using with_en_hop_fields by (simp add: en2_def hop2_def)
qed

section \<open>Segments and audio tracks\<close>

text \<open>
  Claim C9 (\<open>addSegment\<close> with a track id that is not registered). As stated the claim
  fails: the call signals nothing. On a widget at rest that holds no track,
  \<open>addSegment("fr", cue, false)\<close> returns normally.
\<close>

theorem addSegment_unregistered_returns:
  "addSegment quiet ''fr'' (Cue 1 2 ''bonjour'') False idle = Ok idle"
  by (simp add: addSegment_def scheduler_defs shadowed_def)

text \<open>
  Claim C9, amended: on a widget whose index map does not store the key
  \<open>hasOwnProperty\<close> (no track labelled so has been added), \<open>addSegment\<close> with a track id
  that is not registered returns without signalling an error and leaves the widget
  unchanged (no segment is added to any track).
\<close>

theorem addSegment_unregistered:
  "trackIndices s ''hasOwnProperty'' = None \<Longrightarrow> trackIndices s tid = None \<Longrightarrow>
   addSegment X tid c sel s = Ok s"
  by (simp add: addSegment_def shadowed_def)

theorem addSegment_unregistered_witness:
  "trackIndices with_en ''hasOwnProperty'' = None \<and> trackIndices with_en ''fr'' = None
   \<and> addSegment quiet ''fr'' (Cue 1 2 ''bonjour'') True with_en = Ok with_en"
proof -
  have a: "trackIndices with_en ''fr'' = None"
    by (simp add: with_en_def after_def perform_def addTextTrack_def scheduler_defs emit_def
        en1_def table_defs)
  from a addSegment_unregistered [OF with_en_unshadowed a, of quiet "Cue 1 2 ''bonjour''" True]
    with_en_unshadowed
  show ?thesis by simp
qed

text \<open>
  \<open>addAudioTrack\<close> on a widget whose audio table does not store the key
  \<open>hasOwnProperty\<close>. With an id that is already a key of the table the call throws
  "Track with that id already loaded." and the widget, the table included, is as before.
  With a fresh id the call returns: a waveform is wrapped in a new audio track stored
  under the id given, an \<open>AudioTrack\<close> instance is stored as it is under its own id (in
  both cases an id other than \<open>__proto__\<close>), no other key of the table changes, and the
  call ends with \<open>this.render()\<close>: when no frame was pending, the full-frame callback
  \<open>render(false)\<close> is pending afterwards.
\<close>

theorem addAudioTrack_table:
  "audio s ''hasOwnProperty'' = None \<longrightarrow>
   (audio s name \<noteq> None \<longrightarrow>
      addAudioTrack X wv name s = Throw (Error ''Track with that id already loaded.'') s)
   \<and> (audio s name = None \<and> name \<noteq> ''__proto__'' \<longrightarrow>
        (\<exists>s'. addAudioTrack X (Wave w) name s = Ok s'
           \<and> audio s' = (audio s)(name \<mapsto> AudioTrack_new X w name)
           \<and> s' = Proto_render False (s\<lparr>audio := audio s'\<rparr>)
           \<and> (requestedFrame s = 0 \<and> requestedTrack s = None \<longrightarrow>
                frames s' = frames s @ [(Suc (lastFrame s), RenderCb False)])))
   \<and> (audio s name = None \<and> audio_id a \<noteq> ''__proto__'' \<longrightarrow>
        (\<exists>s'. addAudioTrack X (AudioTrackInstance a) name s = Ok s'
           \<and> audio s' = (audio s)(audio_id a \<mapsto> a)
           \<and> s' = Proto_render False (s\<lparr>audio := audio s'\<rparr>)
           \<and> (requestedFrame s = 0 \<and> requestedTrack s = None \<longrightarrow>
                frames s' = frames s @ [(Suc (lastFrame s), RenderCb False)])))"
proof -
  have audio_render: "\<And>s. audio (Proto_render False s) = audio s"
    by (simp add: Proto_render_def cancelFrame_def requestFrame_def)
  have fr: "\<And>v. requestedFrame s = 0 \<and> requestedTrack s = None \<longrightarrow>
      frames (Proto_render False (s\<lparr>audio := v\<rparr>)) = frames s @ [(Suc (lastFrame s), RenderCb False)]"
    by (simp add: Proto_render_def requestFrame_def)
  show ?thesis
    using fr by (simp add: addAudioTrack_def audio_render table_defs)
qed

theorem addAudioTrack_table_witness:
  "audio idle ''hasOwnProperty'' = None \<and> audio idle ''a1'' = None
   \<and> requestedFrame idle = 0 \<and> requestedTrack idle = None
   \<and> (\<exists>s'. addAudioTrack quiet (Wave (WaveForm 0)) ''a1'' idle = Ok s'
         \<and> audio s' ''a1'' = Some \<lparr>audio_id = ''a1'', references = 0\<rparr>
         \<and> frames s' = [(2, RenderCb False)]
         \<and> audio s' ''hasOwnProperty'' = None
         \<and> addAudioTrack quiet (Wave (WaveForm 1)) ''a1'' s'
             = Throw (Error ''Track with that id already loaded.'') s')"
proof -
  have a: "audio idle ''hasOwnProperty'' = None" "audio idle ''a1'' = None"
    "requestedFrame idle = 0" "requestedTrack idle = None" "frames idle = []"
    "lastFrame idle = 1" "''a1'' \<noteq> ''__proto__''"
    by (simp_all add: scheduler_defs)
  obtain s' where s': "addAudioTrack quiet (Wave (WaveForm 0)) ''a1'' idle = Ok s'"
      "audio s' = (audio idle)(''a1'' \<mapsto> AudioTrack_new quiet (WaveForm 0) ''a1'')"
      "frames s' = frames idle @ [(Suc (lastFrame idle), RenderCb False)]"
    using addAudioTrack_table [where s = idle and name = "''a1''" and X = quiet
        and w = "WaveForm 0"] a
    by blast
  have b: "audio s' ''a1'' = Some \<lparr>audio_id = ''a1'', references = 0\<rparr>"
    "audio s' ''hasOwnProperty'' = None"
    using s'(2) a(1) by (simp_all add: quiet_def)
  have c: "frames s' = [(2, RenderCb False)]"
    using s'(3) a by simp
  have d: "addAudioTrack quiet (Wave (WaveForm 1)) ''a1'' s'
             = Throw (Error ''Track with that id already loaded.'') s'"
    using addAudioTrack_table [where s = s' and name = "''a1''" and X = quiet
        and wv = "Wave (WaveForm 1)"] b by simp
  from a s'(1) b c d show ?thesis by simp
qed

lemma with_audio_hop_fields:
  "audio with_audio_hop ''hasOwnProperty''
     = Some \<lparr>audio_id = ''hasOwnProperty'', references = 0\<rparr>"
  by (simp add: with_audio_hop_def after_def perform_def addAudioTrack_def scheduler_defs
      quiet_def table_defs)

lemma track_pending_fields:
  "frames track_pending = [(2, RenderTrackCb 1)] \<and> requestedFrame track_pending = 2
   \<and> requestedTrack track_pending = Some 1 \<and> audio track_pending = Map.empty"
  by (simp add: track_pending_def after_def perform_def scheduler_defs)

text \<open>
  Claim C10 (\<open>addAudioTrack\<close>): the code departs from the claim at three inputs. After
  \<open>addAudioTrack(wave, "hasOwnProperty")\<close> the id is a key of the audio table, and a
  second call with that id throws a TypeError, not "Track with that id already loaded.".
  With the fresh id "__proto__" the call returns and stores no key: the table is as
  before. And with a redraw of one track pending, a call with the fresh id "a1" stores
  the audio track and leaves no frame callback pending: the redraw it asks for is lost.
\<close>

theorem addAudioTrack_reserved_ids:
  "audio with_audio_hop ''hasOwnProperty''
     = Some \<lparr>audio_id = ''hasOwnProperty'', references = 0\<rparr>
   \<and> addAudioTrack quiet (Wave (WaveForm 1)) ''hasOwnProperty'' with_audio_hop
       = Throw TypeError with_audio_hop
   \<and> audio idle ''__proto__'' = None
   \<and> addAudioTrack quiet (Wave (WaveForm 0)) ''__proto__'' idle = Ok (Proto_render False idle)
   \<and> audio (Proto_render False idle) ''__proto__'' = None
   \<and> frames track_pending = [(2, RenderTrackCb 1)]
   \<and> audio (state_of (addAudioTrack quiet (Wave (WaveForm 0)) ''a1'' track_pending)) ''a1''
       = Some \<lparr>audio_id = ''a1'', references = 0\<rparr>
   \<and> frames (state_of (addAudioTrack quiet (Wave (WaveForm 0)) ''a1'' track_pending)) = []"
proof -
  have a: "addAudioTrack quiet (Wave (WaveForm 1)) ''hasOwnProperty'' with_audio_hop
       = Throw TypeError with_audio_hop"
    using with_audio_hop_fields by (simp add: addAudioTrack_def shadowed_def)
  have b: "audio idle ''__proto__'' = None"
    "addAudioTrack quiet (Wave (WaveForm 0)) ''__proto__'' idle = Ok (Proto_render False idle)"
    "audio (Proto_render False idle) ''__proto__'' = None"
    by (simp_all add: addAudioTrack_def scheduler_defs table_defs)
  have c: "audio (state_of (addAudioTrack quiet (Wave (WaveForm 0)) ''a1'' track_pending)) ''a1''
       = Some \<lparr>audio_id = ''a1'', references = 0\<rparr>"
    "frames (state_of (addAudioTrack quiet (Wave (WaveForm 0)) ''a1'' track_pending)) = []"
    using track_pending_fields
    by (simp_all add: addAudioTrack_def table_defs quiet_def Proto_render_def cancelFrame_def
        state_of_def)
  from a b c with_audio_hop_fields track_pending_fields show ?thesis by simp
qed

section \<open>What a redraw request and a notification leave alone\<close>

lemma Proto_render_keeps [simp]:
  "view_startTime (Proto_render b s) = view_startTime s"
  "view_endTime (Proto_render b s) = view_endTime s"
  "timeMarkerPos (Proto_render b s) = timeMarkerPos s"
  "emitted (Proto_render b s) = emitted s"
  "tracks (Proto_render b s) = tracks s"
  "trackIndices (Proto_render b s) = trackIndices s"
  "height (Proto_render b s) = height s"
  "abRepeatOn (Proto_render b s) = abRepeatOn s"
  "repeatA (Proto_render b s) = repeatA s"
  "repeatB (Proto_render b s) = repeatB s"
  "abRepeatSetting (Proto_render b s) = abRepeatSetting s"
  "activeIndex (Proto_render b s) = activeIndex s"
  "width (Proto_render b s) = width s"
  "currentTool (Proto_render b s) = currentTool s"
  "selectedSegments (Proto_render b s) = selectedSegments s"
  by (simp_all add: Proto_render_def cancelFrame_def requestFrame_def)

lemma emit_keeps [simp]:
  "view_startTime (emit evt d s) = view_startTime s"
  "view_endTime (emit evt d s) = view_endTime s"
  "timeMarkerPos (emit evt d s) = timeMarkerPos s"
  "tracks (emit evt d s) = tracks s"
  "trackIndices (emit evt d s) = trackIndices s"
  "height (emit evt d s) = height s"
  "abRepeatOn (emit evt d s) = abRepeatOn s"
  "repeatA (emit evt d s) = repeatA s"
  "repeatB (emit evt d s) = repeatB s"
  "abRepeatSetting (emit evt d s) = abRepeatSetting s"
  "activeIndex (emit evt d s) = activeIndex s"
  "width (emit evt d s) = width s"
  "currentTool (emit evt d s) = currentTool s"
  "selectedSegments (emit evt d s) = selectedSegments s"
  "requestedFrame (emit evt d s) = requestedFrame s"
  "requestedTrack (emit evt d s) = requestedTrack s"
  "frames (emit evt d s) = frames s"
  "lastFrame (emit evt d s) = lastFrame s"
  by (simp_all add: emit_def)

section \<open>Playhead and viewport\<close>

lemma num_simps [simp]: "num (Some r) = r" "num None = 0"
  by (simp_all add: num_def)

lemma set_currentTime_no_wrap:
  assumes "Some time \<noteq> timeMarkerPos s"
    and "abRepeatOn s \<longrightarrow> time \<le> num (repeatB s)"
  shows "set_currentTime X time s =
     (let (stab, s2) =
            (if time < view_startTime s
               then (False, run X (View_center (time - view_length s / 4)) s)
             else if view_endTime s < time
               then (False, run X (View_center (time + view_length s / 4)) s)
             else (True, s));
          s3 = s2\<lparr>timeMarkerPos := Some time\<rparr>
      in if Undef \<in> set (tracks s3) then Throw TypeError s3
         else Ok (Proto_render stab (emit ''timeupdate'' (ValData (Some time)) s3)))"
proof (cases "abRepeatOn s")
  case True
  with assms(2) have "\<not> num (repeatB s) < time" by simp
  with assms(1) show ?thesis by (simp add: set_currentTime_def)
next
  case False
  with assms(1) show ?thesis by (simp add: set_currentTime_def)
qed

lemma idle_view:
  "view_startTime idle = 0 \<and> view_endTime idle = 60 \<and> tl_length idle = 1800
   \<and> timeMarkerPos idle = Some 0 \<and> \<not> abRepeatOn idle \<and> tracks idle = []
   \<and> emitted idle = [] \<and> frames idle = [] \<and> lastFrame idle = 1
   \<and> requestedFrame idle = 0 \<and> requestedTrack idle = None"
  by (simp add: scheduler_defs)

lemma looped_fields:
  "view_startTime looped = 60 \<and> view_endTime looped = 120 \<and> timeMarkerPos looped = Some 0
   \<and> abRepeatOn looped \<and> repeatA looped = Some 10 \<and> repeatB looped = Some 20
   \<and> tracks looped = [] \<and> frames looped = [] \<and> lastFrame looped = 2
   \<and> requestedFrame looped = 0 \<and> requestedTrack looped = None
   \<and> names_of (emitted looped) = [(''abRepeatEnabled'', NoData), (''abRepeatSet'', NoData)]"
  by (simp add: looped_def after_def perform_def setRepeat_def set_abRepeatOn_def
      abRepeatSet_def scheduler_defs emit_def names_of_def)

text \<open>
  Claim C8 (setting \<open>currentTime\<close>). As stated the claim fails at two points. On a
  widget at rest (length 1800, view [0,60], playhead 0), setting 0, which lies inside the
  window and is the playhead's position already, returns at once: nothing is emitted and
  no redraw is requested. And on a widget at rest with the view at [60,120] and the
  AB-repeat range [10,20] enabled, setting 90, which lies inside the window, does not take
  the stable path: the value wraps to 10, 'jump' and 'timeupdate' carry 10, the playhead
  goes to 10, and the callback left pending is \<open>render(false)\<close>.
\<close>

theorem set_currentTime_counterexample:
  "view_startTime idle = 0 \<and> view_endTime idle = 60 \<and> timeMarkerPos idle = Some 0
   \<and> set_currentTime quiet 0 idle = Ok idle
   \<and> emitted idle = [] \<and> frames idle = []
   \<and> view_startTime looped = 60 \<and> view_endTime looped = 120
   \<and> abRepeatOn looped \<and> repeatA looped = Some 10 \<and> repeatB looped = Some 20
   \<and> frames looped = []
   \<and> timeMarkerPos (state_of (set_currentTime quiet 90 looped)) = Some 10
   \<and> frames (state_of (set_currentTime quiet 90 looped)) = [(3, RenderCb False)]
   \<and> names_of (emitted (state_of (set_currentTime quiet 90 looped)))
       = names_of (emitted looped)
         @ [(''jump'', ValData (Some 10)), (''timeupdate'', ValData (Some 10))]"
proof -
  have a: "set_currentTime quiet 0 idle = Ok idle"
    using idle_view by (simp add: set_currentTime_def)
  have b: "set_currentTime quiet 90 looped =
      Ok (Proto_render False
            (emit ''timeupdate'' (ValData (Some 10))
               ((emit ''jump'' (ValData (Some 10)) looped)\<lparr>timeMarkerPos := Some 10\<rparr>)))"
    using looped_fields by (simp add: set_currentTime_def quiet_def)
  have c: "frames (state_of (set_currentTime quiet 90 looped)) = [(3, RenderCb False)]"
    using looped_fields by (simp add: b state_of_def Proto_render_def requestFrame_def)
  have d: "timeMarkerPos (state_of (set_currentTime quiet 90 looped)) = Some 10"
    "names_of (emitted (state_of (set_currentTime quiet 90 looped)))
       = names_of (emitted looped)
         @ [(''jump'', ValData (Some 10)), (''timeupdate'', ValData (Some 10))]"
    by (simp_all add: b state_of_def names_of_def emit_def)
  from a c d idle_view looped_fields show ?thesis by simp
qed

text \<open>
  Claim C8, amended. Setting \<open>currentTime\<close> to the value the playhead already has
  returns at once and changes nothing. Otherwise, for a value that the AB-repeat
  wrap-around does not replace (AB-repeat off, or the value not beyond \<open>repeatB\<close>) and a
  track array without \<open>undefined\<close> elements: the playhead is set to the value and one
  'timeupdate' notification carrying the value is emitted; a value inside the window
  \<open>[startTime, endTime]\<close> leaves the view unchanged and the call ends with
  \<open>render(true)\<close>, so that with nothing pending before, the stable callback is pending
  afterwards; a value below the window makes the setter call \<open>view.center\<close> on the value
  minus a quarter of the window's length, a value above it on the value plus a quarter,
  and the call then ends with \<open>render(false)\<close>. What window \<open>view.center\<close> leaves is
  decided by the class \<open>Timeline.View\<close>, which is a collaborator here.
\<close>

theorem set_currentTime_view:
  "(Some time = timeMarkerPos s \<longrightarrow> set_currentTime X time s = Ok s)
   \<and> (Some time \<noteq> timeMarkerPos s \<and> (abRepeatOn s \<longrightarrow> time \<le> num (repeatB s)) \<longrightarrow>
        (view_startTime s \<le> time \<and> time \<le> view_endTime s \<and> Undef \<notin> set (tracks s) \<longrightarrow>
           set_currentTime X time s
             = Ok (Proto_render True
                     (emit ''timeupdate'' (ValData (Some time)) (s\<lparr>timeMarkerPos := Some time\<rparr>)))
           \<and> view_startTime (state_of (set_currentTime X time s)) = view_startTime s
           \<and> view_endTime (state_of (set_currentTime X time s)) = view_endTime s
           \<and> timeMarkerPos (state_of (set_currentTime X time s)) = Some time
           \<and> names_of (emitted (state_of (set_currentTime X time s)))
               = names_of (emitted s) @ [(''timeupdate'', ValData (Some time))]
           \<and> (requestedFrame s = 0 \<and> requestedTrack s = None \<longrightarrow>
                frames (state_of (set_currentTime X time s))
                  = frames s @ [(Suc (lastFrame s), RenderCb True)]))
        \<and> (time < view_startTime s
             \<and> Undef \<notin> set (tracks (run X (View_center (time - view_length s / 4)) s)) \<longrightarrow>
           set_currentTime X time s
             = Ok (Proto_render False
                     (emit ''timeupdate'' (ValData (Some time))
                        ((run X (View_center (time - view_length s / 4)) s)
                           \<lparr>timeMarkerPos := Some time\<rparr>)))
           \<and> timeMarkerPos (state_of (set_currentTime X time s)) = Some time)
        \<and> (view_startTime s \<le> time \<and> view_endTime s < time
             \<and> Undef \<notin> set (tracks (run X (View_center (time + view_length s / 4)) s)) \<longrightarrow>
           set_currentTime X time s
             = Ok (Proto_render False
                     (emit ''timeupdate'' (ValData (Some time))
                        ((run X (View_center (time + view_length s / 4)) s)
                           \<lparr>timeMarkerPos := Some time\<rparr>)))
           \<and> timeMarkerPos (state_of (set_currentTime X time s)) = Some time))"
proof -
  let ?lo = "run X (View_center (time - view_length s / 4)) s"
  let ?hi = "run X (View_center (time + view_length s / 4)) s"
  have same: "Some time = timeMarkerPos s \<longrightarrow> set_currentTime X time s = Ok s"
    by (simp add: set_currentTime_def)
  have inside:
    "view_startTime s \<le> time \<and> time \<le> view_endTime s \<and> Undef \<notin> set (tracks s) \<longrightarrow>
       set_currentTime X time s
         = Ok (Proto_render True
                 (emit ''timeupdate'' (ValData (Some time)) (s\<lparr>timeMarkerPos := Some time\<rparr>)))
       \<and> view_startTime (state_of (set_currentTime X time s)) = view_startTime s
       \<and> view_endTime (state_of (set_currentTime X time s)) = view_endTime s
       \<and> timeMarkerPos (state_of (set_currentTime X time s)) = Some time
       \<and> names_of (emitted (state_of (set_currentTime X time s)))
           = names_of (emitted s) @ [(''timeupdate'', ValData (Some time))]
       \<and> (requestedFrame s = 0 \<and> requestedTrack s = None \<longrightarrow>
            frames (state_of (set_currentTime X time s))
              = frames s @ [(Suc (lastFrame s), RenderCb True)])"
    if h: "Some time \<noteq> timeMarkerPos s \<and> (abRepeatOn s \<longrightarrow> time \<le> num (repeatB s))"
  proof (rule impI)
    assume i: "view_startTime s \<le> time \<and> time \<le> view_endTime s \<and> Undef \<notin> set (tracks s)"
    let ?s1 = "emit ''timeupdate'' (ValData (Some time)) (s\<lparr>timeMarkerPos := Some time\<rparr>)"
    have e: "set_currentTime X time s = Ok (Proto_render True ?s1)"
      using h i by (simp add: set_currentTime_no_wrap)
    have f: "requestedFrame s = 0 \<and> requestedTrack s = None \<longrightarrow>
        frames (Proto_render True ?s1) = frames s @ [(Suc (lastFrame s), RenderCb True)]"
      by (simp add: render_from_rest)
    show "set_currentTime X time s = Ok (Proto_render True ?s1)
       \<and> view_startTime (state_of (set_currentTime X time s)) = view_startTime s
       \<and> view_endTime (state_of (set_currentTime X time s)) = view_endTime s
       \<and> timeMarkerPos (state_of (set_currentTime X time s)) = Some time
       \<and> names_of (emitted (state_of (set_currentTime X time s)))
           = names_of (emitted s) @ [(''timeupdate'', ValData (Some time))]
       \<and> (requestedFrame s = 0 \<and> requestedTrack s = None \<longrightarrow>
            frames (state_of (set_currentTime X time s))
              = frames s @ [(Suc (lastFrame s), RenderCb True)])"
      using f by (simp add: e state_of_def)
  qed
  have below:
    "time < view_startTime s \<and> Undef \<notin> set (tracks ?lo) \<longrightarrow>
       set_currentTime X time s
         = Ok (Proto_render False
                 (emit ''timeupdate'' (ValData (Some time)) (?lo\<lparr>timeMarkerPos := Some time\<rparr>)))
       \<and> timeMarkerPos (state_of (set_currentTime X time s)) = Some time"
    if h: "Some time \<noteq> timeMarkerPos s \<and> (abRepeatOn s \<longrightarrow> time \<le> num (repeatB s))"
  proof (rule impI)
    assume i: "time < view_startTime s \<and> Undef \<notin> set (tracks ?lo)"
    have e: "set_currentTime X time s
         = Ok (Proto_render False
                 (emit ''timeupdate'' (ValData (Some time)) (?lo\<lparr>timeMarkerPos := Some time\<rparr>)))"
      using h i by (simp add: set_currentTime_no_wrap)
    show "set_currentTime X time s
         = Ok (Proto_render False
                 (emit ''timeupdate'' (ValData (Some time)) (?lo\<lparr>timeMarkerPos := Some time\<rparr>)))
       \<and> timeMarkerPos (state_of (set_currentTime X time s)) = Some time"
      by (simp add: e state_of_def)
  qed
  have above:
    "view_startTime s \<le> time \<and> view_endTime s < time \<and> Undef \<notin> set (tracks ?hi) \<longrightarrow>
       set_currentTime X time s
         = Ok (Proto_render False
                 (emit ''timeupdate'' (ValData (Some time)) (?hi\<lparr>timeMarkerPos := Some time\<rparr>)))
       \<and> timeMarkerPos (state_of (set_currentTime X time s)) = Some time"
    if h: "Some time \<noteq> timeMarkerPos s \<and> (abRepeatOn s \<longrightarrow> time \<le> num (repeatB s))"
  proof (rule impI)
    assume i: "view_startTime s \<le> time \<and> view_endTime s < time \<and> Undef \<notin> set (tracks ?hi)"
    have e: "set_currentTime X time s
         = Ok (Proto_render False
                 (emit ''timeupdate'' (ValData (Some time)) (?hi\<lparr>timeMarkerPos := Some time\<rparr>)))"
      using h i by (simp add: set_currentTime_no_wrap)
    show "set_currentTime X time s
         = Ok (Proto_render False
                 (emit ''timeupdate'' (ValData (Some time)) (?hi\<lparr>timeMarkerPos := Some time\<rparr>)))
       \<and> timeMarkerPos (state_of (set_currentTime X time s)) = Some time"
      by (simp add: e state_of_def)
  qed
  show ?thesis
    using same inside below above by blast
qed

text \<open>
  On the widget at rest (length 1800, view [0,60], playhead 0): setting 0 changes
  nothing; setting 30 keeps the view at [0,60], moves the playhead to 30, emits
  'timeupdate' and leaves \<open>render(true)\<close> pending; setting 90 calls \<open>view.center(105)\<close>,
  moves the playhead to 90 and leaves \<open>render(false)\<close> pending.
\<close>

theorem set_currentTime_view_witness:
  "Some 0 = timeMarkerPos idle \<and> set_currentTime quiet 0 idle = Ok idle
   \<and> Some 30 \<noteq> timeMarkerPos idle \<and> Some 90 \<noteq> timeMarkerPos idle
   \<and> \<not> abRepeatOn idle
   \<and> view_startTime idle \<le> 30 \<and> 30 \<le> view_endTime idle \<and> Undef \<notin> set (tracks idle)
   \<and> requestedFrame idle = 0 \<and> requestedTrack idle = None
   \<and> view_startTime (state_of (set_currentTime quiet 30 idle)) = 0
   \<and> view_endTime (state_of (set_currentTime quiet 30 idle)) = 60
   \<and> timeMarkerPos (state_of (set_currentTime quiet 30 idle)) = Some 30
   \<and> names_of (emitted (state_of (set_currentTime quiet 30 idle)))
       = [(''timeupdate'', ValData (Some 30))]
   \<and> frames (state_of (set_currentTime quiet 30 idle)) = [(2, RenderCb True)]
   \<and> view_startTime idle \<le> 90 \<and> view_endTime idle < 90
   \<and> Undef \<notin> set (tracks (run quiet (View_center 105) idle))
   \<and> set_currentTime quiet 90 idle
       = Ok (Proto_render False
               (emit ''timeupdate'' (ValData (Some 90))
                  ((run quiet (View_center 105) idle)\<lparr>timeMarkerPos := Some 90\<rparr>)))
   \<and> timeMarkerPos (state_of (set_currentTime quiet 90 idle)) = Some 90"
proof -
  have h: "Some 0 = timeMarkerPos idle" "Some 30 \<noteq> timeMarkerPos idle"
    "Some 90 \<noteq> timeMarkerPos idle" "\<not> abRepeatOn idle"
    "view_startTime idle \<le> 30" "30 \<le> view_endTime idle" "Undef \<notin> set (tracks idle)"
    "requestedFrame idle = 0" "requestedTrack idle = None"
    "view_startTime idle \<le> 90" "view_endTime idle < 90"
    using idle_view by simp_all
  have q: "90 + view_length idle / 4 = 105"
    using idle_view by (simp add: view_length_def)
  have u: "Undef \<notin> set (tracks (run quiet (View_center 105) idle))"
    using idle_view by (simp add: quiet_def)
  have a: "set_currentTime quiet 0 idle = Ok idle"
    using set_currentTime_view [where time = 0 and s = idle and X = quiet] h(1) by blast
  have b: "view_startTime (state_of (set_currentTime quiet 30 idle)) = view_startTime idle
     \<and> view_endTime (state_of (set_currentTime quiet 30 idle)) = view_endTime idle
     \<and> timeMarkerPos (state_of (set_currentTime quiet 30 idle)) = Some 30
     \<and> names_of (emitted (state_of (set_currentTime quiet 30 idle)))
         = names_of (emitted idle) @ [(''timeupdate'', ValData (Some 30))]
     \<and> frames (state_of (set_currentTime quiet 30 idle))
         = frames idle @ [(Suc (lastFrame idle), RenderCb True)]"
    using set_currentTime_view [where time = 30 and s = idle and X = quiet] h by blast
  have c: "set_currentTime quiet 90 idle
       = Ok (Proto_render False
               (emit ''timeupdate'' (ValData (Some 90))
                  ((run quiet (View_center (90 + view_length idle / 4)) idle)
                     \<lparr>timeMarkerPos := Some 90\<rparr>)))
     \<and> timeMarkerPos (state_of (set_currentTime quiet 90 idle)) = Some 90"
    using set_currentTime_view [where time = 90 and s = idle and X = quiet] h u
    unfolding q by blast
  from h u a b c show ?thesis
    using idle_view by (simp add: q names_of_def state_of_def)
qed

section \<open>AB-repeat invariant\<close>

lemma ab_ok_cong:
  "abRepeatOn t = abRepeatOn s \<Longrightarrow> repeatA t = repeatA s \<Longrightarrow> repeatB t = repeatB s \<Longrightarrow>
   emitted t = emitted s \<Longrightarrow> ab_ok t = ab_ok s"
  by (simp add: ab_ok_def ab_inv_def)

lemma ab_ok_emit: "ab_ok s \<Longrightarrow> ab_ok (emit evt d s)"
  by (simp add: ab_ok_def ab_inv_def emit_def seen_ok_def)

lemma ab_ok_Proto_render [simp]: "ab_ok (Proto_render b s) = ab_ok s"
  by (rule ab_ok_cong) simp_all

lemma Proto_renderTrack_keeps [simp]:
  "emitted (Proto_renderTrack t s) = emitted s"
  "abRepeatOn (Proto_renderTrack t s) = abRepeatOn s"
  "repeatA (Proto_renderTrack t s) = repeatA s"
  "repeatB (Proto_renderTrack t s) = repeatB s"
  "tracks (Proto_renderTrack t s) = tracks s"
  "trackIndices (Proto_renderTrack t s) = trackIndices s"
  "selectedSegments (Proto_renderTrack t s) = selectedSegments s"
  by (simp_all add: Proto_renderTrack_def cancelFrame_def requestFrame_def Let_def)

lemma ab_ok_Proto_renderTrack [simp]: "ab_ok (Proto_renderTrack t s) = ab_ok s"
  by (rule ab_ok_cong) simp_all

lemma run_callback_keeps:
  "emitted (state_of (run_callback cb s)) = emitted s"
  "abRepeatOn (state_of (run_callback cb s)) = abRepeatOn s"
  "repeatA (state_of (run_callback cb s)) = repeatA s"
  "repeatB (state_of (run_callback cb s)) = repeatB s"
  "tracks (state_of (run_callback cb s)) = tracks s"
  "trackIndices (state_of (run_callback cb s)) = trackIndices s"
  by (simp_all add: run_callback_def render_cb_def renderTrack_cb_def state_of_def
      requestFrame_def split: callback.splits)

lemma ab_ok_run_callback: "ab_ok (state_of (run_callback cb s)) = ab_ok s"
  by (rule ab_ok_cong) (simp_all add: run_callback_keeps)
lemma ab_ok_fold_callbacks:
  "ab_ok (fold (\<lambda>(i, cb) s'. state_of (run_callback cb s')) fs s) = ab_ok s"
proof (induction fs arbitrary: s)
  case Nil
  show ?case by simp
next
  case (Cons a fs)
  obtain i cb where a: "a = (i, cb)" by (cases a)
  show ?case
    by (simp add: a Cons.IH ab_ok_run_callback)
qed
lemma ab_ok_fire_frame: "ab_ok (fire_frame s) = ab_ok s"
proof -
  have "ab_ok (s\<lparr>frames := []\<rparr>) = ab_ok s"
    by (rule ab_ok_cong) simp_all
  then show ?thesis
    by (simp add: fire_frame_def ab_ok_fold_callbacks)
qed
lemma set_abRepeatOn_value: "abRepeatOn (set_abRepeatOn on s) = (abRepeatSet s \<and> on)"
  by (auto simp: set_abRepeatOn_def Let_def)

lemma set_abRepeatOn_points [simp]:
  "repeatA (set_abRepeatOn on s) = repeatA s"
  "repeatB (set_abRepeatOn on s) = repeatB s"
  by (simp_all add: set_abRepeatOn_def Let_def)

text \<open>
  The setter restores the invariant whatever the flag was before, provided the listeners
  so far saw it hold.
\<close>

lemma ab_ok_set_abRepeatOn:
  "list_all seen_ok (emitted s) \<Longrightarrow> ab_ok (set_abRepeatOn on s)"
  by (auto simp: set_abRepeatOn_def Let_def ab_ok_def ab_inv_def abRepeatSet_def emit_def
      seen_ok_def)

lemma ab_ok_updateABPoints: "ab_ok s \<Longrightarrow> ab_ok (updateABPoints p s)"
  by (auto simp: updateABPoints_def ab_ok_def ab_inv_def)

lemma ab_ok_resetABPoints: "ab_ok s \<Longrightarrow> ab_ok (resetABPoints p s)"
  by (auto simp: resetABPoints_def ab_ok_def ab_inv_def emit_def seen_ok_def)

lemma ab_ok_clearRepeat: "ab_ok s \<Longrightarrow> ab_ok (clearRepeat s)"
proof -
  assume ok: "ab_ok s"
  let ?s1 = "s\<lparr>repeatA := None, repeatB := None, abRepeatSetting := False\<rparr>"
  have seen: "list_all seen_ok (emitted ?s1)"
    using ok by (simp add: ab_ok_def)
  have "ab_ok (if abRepeatOn ?s1 then set_abRepeatOn False ?s1 else Proto_render False ?s1)"
  proof (cases "abRepeatOn ?s1")
    case True
    then show ?thesis using ab_ok_set_abRepeatOn [OF seen] by simp
  next
    case False
    then show ?thesis using seen by (simp add: ab_ok_def ab_inv_def)
  qed
  then show ?thesis
    by (simp add: clearRepeat_def Let_def ab_ok_emit)
qed

lemma ab_ok_setRepeat: "ab_ok s \<Longrightarrow> ab_ok (setRepeat a b s)"
proof -
  assume ok: "ab_ok s"
  let ?s1 = "s\<lparr>repeatA := Some (min a b), repeatB := Some (max a b), abRepeatSetting := False\<rparr>"
  have seen: "list_all seen_ok (emitted ?s1)"
    using ok by (simp add: ab_ok_def)
  have "ab_ok (if \<not> abRepeatOn ?s1 then set_abRepeatOn True ?s1 else Proto_render False ?s1)"
  proof (cases "abRepeatOn ?s1")
    case False
    then show ?thesis using ab_ok_set_abRepeatOn [OF seen] by simp
  next
    case True
    then show ?thesis using seen by (simp add: ab_ok_def ab_inv_def)
  qed
  then show ?thesis
    by (simp add: setRepeat_def Let_def ab_ok_emit)
qed

lemma ab_ok_timeMarkerPos [simp]: "ab_ok (s\<lparr>timeMarkerPos := v\<rparr>) = ab_ok s"
  by (rule ab_ok_cong) simp_all

lemma ab_ok_set_currentTime:
  "collab_keeps_ab X \<Longrightarrow> ab_ok s \<Longrightarrow> ab_ok (state_of (set_currentTime X time s))"
  by (simp add: set_currentTime_def state_of_def Let_def ab_ok_emit collab_keeps_ab_def)
lemma ab_ok_updates [simp]:
  "ab_ok (s\<lparr>tracks := v1\<rparr>) = ab_ok s"
  "ab_ok (s\<lparr>trackIndices := v2\<rparr>) = ab_ok s"
  "ab_ok (s\<lparr>height := v3\<rparr>) = ab_ok s"
  "ab_ok (s\<lparr>audio := v4\<rparr>) = ab_ok s"
  "ab_ok (s\<lparr>activeIndex := v5\<rparr>) = ab_ok s"
  "ab_ok (s\<lparr>activeElement := v6\<rparr>) = ab_ok s"
  "ab_ok (s\<lparr>mouseDownFlag := v7\<rparr>) = ab_ok s"
  "ab_ok (s\<lparr>mouseDownPos := v8\<rparr>) = ab_ok s"
  "ab_ok (s\<lparr>mousePos := v9\<rparr>) = ab_ok s"
  "ab_ok (s\<lparr>scrollInterval := v10\<rparr>) = ab_ok s"
  "ab_ok (s\<lparr>sliderActive := v11\<rparr>) = ab_ok s"
  "ab_ok (s\<lparr>scrubActive := v12\<rparr>) = ab_ok s"
  "ab_ok (s\<lparr>abRepeatSetting := v13\<rparr>) = ab_ok s"
  "ab_ok (s\<lparr>currentTool := v14\<rparr>) = ab_ok s"
  "ab_ok (s\<lparr>selectedSegments := v15\<rparr>) = ab_ok s"
  by (rule ab_ok_cong; simp)+

lemma state_of_simps [simp]: "state_of (Ok s) = s" "state_of (Throw e s) = s"
  by (simp_all add: state_of_def)

lemma ab_ok_swaptracks: "ab_ok s \<Longrightarrow> ab_ok (state_of (swaptracks n ot s))"
  by (simp add: swaptracks_def state_of_def Let_def ab_ok_emit split: option.splits)

lemma ab_ok_addTextTrack: "ab_ok s \<Longrightarrow> ab_ok (state_of (addTextTrack n ov s))"
  by (simp add: addTextTrack_def ab_ok_swaptracks Let_def ab_ok_emit split: option.splits)

lemma ab_ok_release_audio [simp]: "ab_ok (release_audio a s) = ab_ok s"
  by (simp add: release_audio_def split: option.splits)

lemma ab_ok_removeTextTrack: "ab_ok s \<Longrightarrow> ab_ok (state_of (removeTextTrack name s))"
  by (simp add: removeTextTrack_def state_of_def Let_def ab_ok_emit split: option.splits)

lemma ab_ok_addAudioTrack: "ab_ok s \<Longrightarrow> ab_ok (state_of (addAudioTrack X wv name s))"
  by (simp add: addAudioTrack_def state_of_def Let_def split: wave.splits)

lemma ab_ok_addSegment:
  "collab_keeps_ab X \<Longrightarrow> ab_ok s \<Longrightarrow> ab_ok (state_of (addSegment X tid c sel s))"
  by (simp add: addSegment_def state_of_def collab_keeps_ab_def split: option.splits)

lemma ab_ok_reorder: "ab_ok s \<Longrightarrow> ab_ok (state_of (reorder i s))"
  by (simp add: reorder_def state_of_def Let_def split: option.splits)

lemma ab_ok_select_segments:
  "ab_ok s \<Longrightarrow> ab_ok (snd (select_segments st en gs s))"
proof (induction gs arbitrary: s)
  case Nil
  then show ?case by simp
next
  case (Cons g gs)
  show ?case
  proof (cases "selected g \<or> en \<le> seg_startTime g \<or> seg_endTime g \<le> st")
    case True
    then show ?thesis
      using Cons.IH [OF Cons.prems] by (simp add: split_def Let_def)
  next
    case False
    let ?g = "g\<lparr>selected := True\<rparr>"
    let ?s1 = "emit ''select'' (SegData ?g) (s\<lparr>selectedSegments := selectedSegments s @ [?g]\<rparr>)"
    have "ab_ok ?s1"
      using Cons.prems by (simp add: ab_ok_emit)
    from Cons.IH [OF this] False show ?thesis
      by (simp add: split_def Let_def)
  qed
qed

lemma ab_ok_select_tracks:
  "ab_ok s \<Longrightarrow> ab_ok (fst (snd (select_tracks st en ts s)))"
proof (induction ts arbitrary: s)
  case Nil
  then show ?case by simp
next
  case (Cons a ts)
  show ?case
  proof (cases a)
    case Hole
    then show ?thesis using Cons.IH [OF Cons.prems] by (simp add: split_def Let_def)
  next
    case Undef
    then show ?thesis using Cons.prems by simp
  next
    case (Obj t)
    have "ab_ok (snd (select_segments st en (visibleSegments t) s))"
      using Cons.prems by (rule ab_ok_select_segments)
    from Cons.IH [OF this] Obj show ?thesis
      by (simp add: split_def Let_def)
  qed
qed

lemma ab_ok_Selection_mouseUp:
  "collab_keeps_ab X \<Longrightarrow> ab_ok s \<Longrightarrow> ab_ok (state_of (Selection_mouseUp X sel p s))"
  by (simp add: Selection_mouseUp_def state_of_def Let_def split_def collab_keeps_ab_def
      ab_ok_select_tracks split: option.splits)
lemma ab_ok_and_then:
  "ab_ok (state_of r) \<Longrightarrow> (\<And>s. ab_ok s \<Longrightarrow> ab_ok (state_of (f s))) \<Longrightarrow>
   ab_ok (state_of (and_then r f))"
  by (cases r) (simp_all add: and_then_def)

lemma ab_ok_mouseMove:
  "collab_keeps_ab X \<Longrightarrow> ab_ok s \<Longrightarrow> ab_ok (state_of (mouseMove X p s))"
  by (simp add: mouseMove_def Let_def ab_ok_set_currentTime ab_ok_emit ab_ok_updateABPoints
      ab_ok_reorder collab_keeps_ab_def split: active.splits)

lemma ab_ok_mouseInactive:
  assumes "collab_keeps_ab X" and "ab_ok s"
  shows "ab_ok (state_of (mouseInactive X p s))"
proof -
  let ?s = "s\<lparr>mouseDownFlag := False, activeIndex := -1\<rparr>"
  have ok: "ab_ok ?s" using assms(2) by simp
  have sel: "\<And>sel. ab_ok (state_of (and_then (Selection_mouseUp X sel p ?s)
                      (\<lambda>s'. Ok (s'\<lparr>activeElement := NoElement\<rparr>))))"
    by (rule ab_ok_and_then) (simp_all add: ab_ok_Selection_mouseUp [OF assms(1) ok])
  have run: "\<And>c. ab_ok (run X c ?s)"
    using assms(1) ok by (simp add: collab_keeps_ab_def)
  show ?thesis
    using ok sel run by (simp add: mouseInactive_def Let_def split: active.splits)
qed

lemma ab_ok_mouseUp:
  assumes "collab_keeps_ab X" and "ab_ok s"
  shows "ab_ok (state_of (mouseUp X button p s))"
proof -
  have "list_all seen_ok (emitted (s\<lparr>abRepeatSetting := False\<rparr>))"
    using assms(2) by (simp add: ab_ok_def)
  then have "ab_ok (set_abRepeatOn (repeatA s \<noteq> repeatB s) (s\<lparr>abRepeatSetting := False\<rparr>))"
    by (rule ab_ok_set_abRepeatOn)
  then show ?thesis
    using assms by (simp add: mouseUp_def Let_def ab_ok_mouseInactive)
qed

lemma ab_ok_mouseOut:
  "collab_keeps_ab X \<Longrightarrow> ab_ok s \<Longrightarrow> ab_ok (state_of (mouseOut X button p s))"
  by (simp add: mouseOut_def ab_ok_mouseInactive)

lemma ab_ok_track_down:
  "collab_keeps_ab X \<Longrightarrow> ab_ok s \<Longrightarrow> ab_ok (track_down X p s)"
  by (simp add: track_down_def collab_keeps_ab_def split: option.splits)

lemma ab_ok_mouseDown:
  assumes "collab_keeps_ab X" and "ab_ok s"
  shows "ab_ok (state_of (mouseDown X button p s))"
proof -
  let ?s = "s\<lparr>mouseDownFlag := True, mouseDownPos := p, mousePos := p\<rparr>"
  have ok: "ab_ok ?s" using assms(2) by simp
  have run: "\<And>c s'. ab_ok s' \<Longrightarrow> ab_ok (run X c s')"
    using assms(1) by (simp add: collab_keeps_ab_def)
  have slider: "ab_ok (state_of
      (if slider_containsPoint X p ?s
       then Ok ((run X (Slider_mouseDown p) ?s)\<lparr>sliderActive := True\<rparr>)
       else if currentTool ?s = SCROLL then Ok (initResize X ?s)
       else
         (let s1 = Proto_render False (run X (Slider_setMiddle (pos_x p)) ?s)
          in if height s1 - sliderHeight < pos_y p
             then Ok ((run X (Slider_mouseDown p) s1)\<lparr>sliderActive := True\<rparr>)
             else Ok s1)))"
    using ok by (simp add: run initResize_def Let_def)
  have key: "ab_ok (state_of
      (let s1 = ?s\<lparr>scrubActive := True\<rparr>; i = pixelToTime s1 (pos_x p)
       in set_currentTime X i (emit ''jump'' (ValData (Some i)) s1)))"
    using ok assms(1) by (simp add: Let_def ab_ok_set_currentTime ab_ok_emit)
  have tools: "ab_ok (state_of
      (case currentTool ?s of
         REPEAT \<Rightarrow>
           (let s1 = ?s\<lparr>abRepeatSetting := True\<rparr>
            in Ok (if abRepeatSet s1 then updateABPoints p s1 else resetABPoints p s1))
       | SCROLL \<Rightarrow> Ok (initScroll ?s)
       | ORDER \<Rightarrow> Ok (?s\<lparr>activeIndex := indexFromPos p ?s\<rparr>)
       | SELECT \<Rightarrow>
           (if multi ?s
            then Ok (?s\<lparr>activeElement := SelectionElement \<lparr>dragged = False, startPos = p\<rparr>\<rparr>)
            else Ok (track_down X p ?s))
       | _ \<Rightarrow> Ok (track_down X p ?s)))"
    using ok assms(1)
    by (simp add: Let_def ab_ok_updateABPoints ab_ok_resetABPoints initScroll_def
        ab_ok_track_down split: tool.splits)
  show ?thesis
    using assms(2) slider key tools by (simp add: mouseDown_def Let_def)
qed

lemma ab_ok_perform:
  "collab_keeps_ab X \<Longrightarrow> ab_ok s \<Longrightarrow> ab_ok (state_of (perform X ev s))"
  by (cases ev)
     (simp_all add: perform_def ab_ok_addTextTrack ab_ok_removeTextTrack ab_ok_addAudioTrack
       ab_ok_addSegment ab_ok_clearRepeat ab_ok_setRepeat ab_ok_set_currentTime
       ab_ok_set_abRepeatOn ab_ok_mouseDown ab_ok_mouseMove ab_ok_mouseUp ab_ok_mouseOut
       ab_ok_fire_frame ab_ok_def [of s, THEN iffD1, THEN conjunct2])

lemma ab_ok_after:
  "collab_keeps_ab X \<Longrightarrow> ab_ok s \<Longrightarrow> ab_ok (after X evs s)"
proof (induction evs arbitrary: s)
  case Nil
  then show ?case by (simp add: after_def)
next
  case (Cons ev evs)
  have "ab_ok (state_of (perform X ev s))"
    using Cons.prems by (rule ab_ok_perform)
  from Cons.IH [OF Cons.prems(1) this] show ?case
    by (simp add: after_def)
qed

lemma ab_ok_new_Timeline: "ab_ok (new_Timeline w img)"
  by (simp add: new_Timeline_def blank_def ab_ok_def ab_inv_def)

lemma collab_keeps_ab_quiet: "collab_keeps_ab quiet"
  by (simp add: collab_keeps_ab_def quiet_def)
lemma with_en_fields:
  "tracks with_en = [Obj en1] \<and> trackIndices with_en = [''en'' \<mapsto> 0] \<and> height with_en = 120
   \<and> width with_en = 600 \<and> view_startTime with_en = 0 \<and> view_endTime with_en = 60
   \<and> repeatA with_en = None \<and> repeatB with_en = None \<and> \<not> abRepeatOn with_en
   \<and> \<not> abRepeatSetting with_en \<and> currentTool with_en = SELECT \<and> \<not> mouseDownFlag with_en
   \<and> \<not> scrubActive with_en \<and> \<not> sliderActive with_en \<and> scrollInterval with_en = NoInterval
   \<and> activeElement with_en = NoElement \<and> activeIndex with_en = -1
   \<and> emitted with_en = [\<lparr>ev_name = ''addtrack'', ev_data = TrackData en1,
        ev_abRepeatOn = False, ev_repeatA = None, ev_repeatB = None\<rparr>]"
  by (simp add: with_en_def after_def perform_def addTextTrack_def scheduler_defs emit_def
      trackHeight_def trackPadding_def keyHeight_def sliderHeight_def en1_def table_defs)

lemma clearRepeat_result:
  "\<not> abRepeatOn (clearRepeat s) \<and> repeatA (clearRepeat s) = None \<and> repeatB (clearRepeat s) = None"
  by (simp add: clearRepeat_def Let_def set_abRepeatOn_value abRepeatSet_def)

text \<open>
  Claim C4 (AB-repeat enabled only while both points are set). The setter of
  \<open>abRepeatOn\<close> stores the value assigned only if both points are set, and false
  otherwise. \<open>clearRepeat\<close> leaves both points null and the flag false. And the invariant
  is kept by every event of the widget: if it holds of a widget and of everything its
  listeners have seen, then after any sequence of interface calls, property assignments,
  pointer events and frames it holds of the widget as it stands and of what the listeners
  saw at each notification emitted on the way; it holds of a new widget. The
  collaborators outside this file are assumed to respect it.
\<close>

theorem abRepeatOn_implies_points_set:
  assumes "collab_keeps_ab X" and "ab_ok s"
  shows "abRepeatOn (set_abRepeatOn on s0) = (on \<and> repeatA s0 \<noteq> None \<and> repeatB s0 \<noteq> None)
     \<and> \<not> abRepeatOn (clearRepeat s0)
     \<and> repeatA (clearRepeat s0) = None \<and> repeatB (clearRepeat s0) = None
     \<and> ab_ok (after X evs s)
     \<and> ab_ok (after X evs (new_Timeline w img))"
proof -
  have a: "abRepeatOn (set_abRepeatOn on s0) = (on \<and> repeatA s0 \<noteq> None \<and> repeatB s0 \<noteq> None)"
    by (auto simp: set_abRepeatOn_value abRepeatSet_def)
  have b: "ab_ok (after X evs s)"
    using assms by (rule ab_ok_after)
  have c: "ab_ok (after X evs (new_Timeline w img))"
    using assms(1) ab_ok_new_Timeline by (rule ab_ok_after)
  from a b c clearRepeat_result [of s0] show ?thesis by blast
qed

lemma ab_ok_with_en: "ab_ok with_en"
  by (simp add: ab_ok_def ab_inv_def seen_ok_def with_en_fields)

theorem abRepeatOn_implies_points_set_witness:
  "collab_keeps_ab quiet \<and> ab_ok with_en
   \<and> \<not> abRepeatOn (set_abRepeatOn True with_en)
   \<and> \<not> abRepeatOn (clearRepeat with_en)
   \<and> ab_ok (after quiet (repeat_gesture @ [Call_clearRepeat, Set_abRepeatOn True]) with_en)"
  using abRepeatOn_implies_points_set [OF collab_keeps_ab_quiet ab_ok_with_en,
      of True with_en "repeat_gesture @ [Call_clearRepeat, Set_abRepeatOn True]"]
    collab_keeps_ab_quiet ab_ok_with_en with_en_fields
  by simp

section \<open>REPEAT tool\<close>

lemma Proto_render_keeps_input [simp]:
  "scrubActive (Proto_render b s) = scrubActive s"
  "scrollInterval (Proto_render b s) = scrollInterval s"
  "mouseDownFlag (Proto_render b s) = mouseDownFlag s"
  "sliderActive (Proto_render b s) = sliderActive s"
  "activeElement (Proto_render b s) = activeElement s"
  by (simp_all add: Proto_render_def cancelFrame_def requestFrame_def)

lemma emit_keeps_input [simp]:
  "scrubActive (emit evt d s) = scrubActive s"
  "scrollInterval (emit evt d s) = scrollInterval s"
  "mouseDownFlag (emit evt d s) = mouseDownFlag s"
  "sliderActive (emit evt d s) = sliderActive s"
  "activeElement (emit evt d s) = activeElement s"
  by (simp_all add: emit_def)

lemma view_only [simp]:
  "timeToPixel (Proto_render b s) = timeToPixel s"
  "pixelToTime (Proto_render b s) = pixelToTime s"
  "timeToPixel (emit evt d s) = timeToPixel s"
  "pixelToTime (emit evt d s) = pixelToTime s"
  by (simp_all add: fun_eq_iff timeToPixel_def pixelToTime_def zoom_def)

lemma timeToPixel_pixelToTime:
  "0 < width s \<Longrightarrow> view_startTime s < view_endTime s \<Longrightarrow>
   timeToPixel s (pixelToTime s px) = px"
  by (simp add: timeToPixel_def pixelToTime_def zoom_def)

lemma pixelToTime_inj:
  "0 < width s \<Longrightarrow> view_startTime s < view_endTime s \<Longrightarrow>
   (pixelToTime s a = pixelToTime s b) = (a = b)"
  by (simp add: pixelToTime_def zoom_def)

lemma mouseDown_REPEAT:
  assumes "currentTool s = REPEAT" and "over_tracks p s"
  shows "mouseDown X 0 p s =
     Ok (let s1 = s\<lparr>mouseDownFlag := True, mouseDownPos := p, mousePos := p,
                      abRepeatSetting := True\<rparr>
         in if abRepeatSet s then updateABPoints p s1 else resetABPoints p s1)"
  using assms by (simp add: mouseDown_def over_tracks_def Let_def abRepeatSet_def)

lemma mouseMove_REPEAT:
  assumes "currentTool s = REPEAT" and "abRepeatSetting s" and "\<not> scrubActive s"
    and "scrollInterval s = NoInterval"
  shows "mouseMove X p s = Ok (Proto_render False (updateABPoints p (s\<lparr>mousePos := p\<rparr>)))"
  using assms by (simp add: mouseMove_def Let_def)

lemma set_abRepeatOn_keeps [simp]:
  "scrubActive (set_abRepeatOn on s) = scrubActive s"
  "scrollInterval (set_abRepeatOn on s) = scrollInterval s"
  "sliderActive (set_abRepeatOn on s) = sliderActive s"
  "activeElement (set_abRepeatOn on s) = activeElement s"
  "abRepeatSetting (set_abRepeatOn on s) = abRepeatSetting s"
  by (simp_all add: set_abRepeatOn_def Let_def)

lemma mouseUp_REPEAT:
  assumes "currentTool s = REPEAT" and "mouseDownFlag s" and "\<not> sliderActive s"
    and "activeElement s = NoElement"
  shows "\<exists>s'. mouseUp X 0 p s = Ok s'
     \<and> abRepeatOn s' = (repeatA s \<noteq> repeatB s \<and> repeatA s \<noteq> None \<and> repeatB s \<noteq> None)
     \<and> repeatA s' = repeatA s \<and> repeatB s' = repeatB s \<and> \<not> abRepeatSetting s'
     \<and> \<not> mouseDownFlag s'"
  using assms
  by (simp add: mouseUp_def mouseInactive_def Let_def set_abRepeatOn_value abRepeatSet_def)
     blast

lemma updateABPoints_points:
  "repeatA (updateABPoints p s) =
     (if pos_x p < timeToPixel s ((num (repeatA s) + num (repeatB s)) / 2)
      then Some (pixelToTime s (pos_x p)) else repeatA s)"
  "repeatB (updateABPoints p s) =
     (if pos_x p < timeToPixel s ((num (repeatA s) + num (repeatB s)) / 2)
      then repeatB s else Some (pixelToTime s (pos_x p)))"
  by (simp_all add: updateABPoints_def)

lemma resetABPoints_points:
  "repeatA (resetABPoints p s) = Some (pixelToTime s (pos_x p))"
  "repeatB (resetABPoints p s) = Some (pixelToTime s (pos_x p))"
  by (simp_all add: resetABPoints_def)

lemma updateABPoints_keeps [simp]:
  "currentTool (updateABPoints p s) = currentTool s"
  "abRepeatSetting (updateABPoints p s) = abRepeatSetting s"
  "scrubActive (updateABPoints p s) = scrubActive s"
  "scrollInterval (updateABPoints p s) = scrollInterval s"
  "mouseDownFlag (updateABPoints p s) = mouseDownFlag s"
  "sliderActive (updateABPoints p s) = sliderActive s"
  "activeElement (updateABPoints p s) = activeElement s"
  "width (updateABPoints p s) = width s"
  "view_startTime (updateABPoints p s) = view_startTime s"
  "view_endTime (updateABPoints p s) = view_endTime s"
  by (simp_all add: updateABPoints_def)

lemma resetABPoints_keeps [simp]:
  "currentTool (resetABPoints p s) = currentTool s"
  "abRepeatSetting (resetABPoints p s) = abRepeatSetting s"
  "scrubActive (resetABPoints p s) = scrubActive s"
  "scrollInterval (resetABPoints p s) = scrollInterval s"
  "mouseDownFlag (resetABPoints p s) = mouseDownFlag s"
  "sliderActive (resetABPoints p s) = sliderActive s"
  "activeElement (resetABPoints p s) = activeElement s"
  "width (resetABPoints p s) = width s"
  "view_startTime (resetABPoints p s) = view_startTime s"
  "view_endTime (resetABPoints p s) = view_endTime s"
  by (simp_all add: resetABPoints_def)

lemma view_of_flags [simp]:
  "pixelToTime (s\<lparr>mouseDownFlag := a, mouseDownPos := b, mousePos := c, abRepeatSetting := d\<rparr>)
     = pixelToTime s"
  "timeToPixel (s\<lparr>mouseDownFlag := a, mouseDownPos := b, mousePos := c, abRepeatSetting := d\<rparr>)
     = timeToPixel s"
  "pixelToTime (s\<lparr>mousePos := c\<rparr>) = pixelToTime s"
  "timeToPixel (s\<lparr>mousePos := c\<rparr>) = timeToPixel s"
  by (simp_all add: fun_eq_iff timeToPixel_def pixelToTime_def zoom_def)

lemma view_of_updateABPoints [simp]:
  "pixelToTime (updateABPoints p s) = pixelToTime s"
  "timeToPixel (updateABPoints p s) = timeToPixel s"
  "pixelToTime (resetABPoints p s) = pixelToTime s"
  "timeToPixel (resetABPoints p s) = timeToPixel s"
  by (simp_all add: fun_eq_iff timeToPixel_def pixelToTime_def zoom_def)

text \<open>
  A drag to the right from rest: down over the tracks at \<open>p1\<close> with no range set, one
  move to \<open>p2\<close> not left of \<open>p1\<close>, release.
\<close>

lemma repeat_drag:
  assumes tool: "currentTool s = REPEAT" and area: "over_tracks p1 s"
    and unset: "\<not> abRepeatSet s"
    and rest: "\<not> scrubActive s" "scrollInterval s = NoInterval" "\<not> sliderActive s"
      "activeElement s = NoElement"
    and view: "0 < width s" "view_startTime s < view_endTime s"
    and right: "pos_x p1 \<le> pos_x p2"
  shows "repeatA (after X [On_mouseDown 0 p1, On_mouseMove p2, On_mouseUp 0 p3] s)
           = Some (pixelToTime s (pos_x p1))
     \<and> repeatB (after X [On_mouseDown 0 p1, On_mouseMove p2, On_mouseUp 0 p3] s)
           = Some (pixelToTime s (pos_x p2))
     \<and> abRepeatOn (after X [On_mouseDown 0 p1, On_mouseMove p2, On_mouseUp 0 p3] s)
           = (pos_x p1 \<noteq> pos_x p2)"
proof -
  define s1 where "s1 = resetABPoints p1
      (s\<lparr>mouseDownFlag := True, mouseDownPos := p1, mousePos := p1, abRepeatSetting := True\<rparr>)"
  define s2 where "s2 = Proto_render False (updateABPoints p2 (s1\<lparr>mousePos := p2\<rparr>))"
  have d: "mouseDown X 0 p1 s = Ok s1"
    using unset by (simp add: mouseDown_REPEAT [OF tool area] s1_def)
  have f1: "currentTool s1 = REPEAT" "abRepeatSetting s1" "\<not> scrubActive s1"
    "scrollInterval s1 = NoInterval" "mouseDownFlag s1" "\<not> sliderActive s1"
    "activeElement s1 = NoElement" "width s1 = width s" "view_startTime s1 = view_startTime s"
    "view_endTime s1 = view_endTime s"
    "repeatA s1 = Some (pixelToTime s (pos_x p1))" "repeatB s1 = Some (pixelToTime s (pos_x p1))"
    "pixelToTime s1 = pixelToTime s" "timeToPixel s1 = timeToPixel s"
    using tool rest by (simp_all add: s1_def resetABPoints_points)
  have m: "mouseMove X p2 s1 = Ok s2"
    using f1 by (simp add: mouseMove_REPEAT s2_def)
  have mid: "\<not> pos_x p2 < timeToPixel s ((pixelToTime s (pos_x p1) + pixelToTime s (pos_x p1)) / 2)"
    using right by (simp add: timeToPixel_pixelToTime [OF view])
  have f2: "currentTool s2 = REPEAT" "mouseDownFlag s2" "\<not> sliderActive s2"
    "activeElement s2 = NoElement"
    "repeatA s2 = Some (pixelToTime s (pos_x p1))" "repeatB s2 = Some (pixelToTime s (pos_x p2))"
    using f1 mid by (simp_all add: s2_def updateABPoints_points)
  obtain s3 where u: "mouseUp X 0 p3 s2 = Ok s3"
    and f3: "abRepeatOn s3 = (repeatA s2 \<noteq> repeatB s2 \<and> repeatA s2 \<noteq> None \<and> repeatB s2 \<noteq> None)"
      "repeatA s3 = repeatA s2" "repeatB s3 = repeatB s2"
    using mouseUp_REPEAT [OF f2(1-4), of X p3] by blast
  have "after X [On_mouseDown 0 p1, On_mouseMove p2, On_mouseUp 0 p3] s = s3"
    by (simp add: after_def perform_def d m u)
  then show ?thesis
    using f3 f2 by (simp add: pixelToTime_inj [OF view])
qed
text \<open>
  Claim C6 (REPEAT tool). The statements are about the primary button and, for
  pointer-down, a pointer over the tracks, where \<open>mouseDown\<close> dispatches on the tool.
  With no range set, pointer-down sets both points to the time under the pointer. With a
  range set, pointer-down, and pointer-move during the gesture, set \<open>repeatA\<close> when the
  pointer's x is left of the pixel position of the midpoint \<open>(repeatA + repeatB) / 2\<close> and
  \<open>repeatB\<close> otherwise, leaving the other point. Pointer-up sets the enabled flag to
  \<open>repeatA \<noteq> repeatB\<close>. And a gesture from rest, down at \<open>p\<close> with no range set, moved to
  the right to \<open>p2\<close> and released, ends with \<open>repeatA\<close> the time at \<open>p\<close>, \<open>repeatB\<close> the time
  at \<open>p2\<close> and the flag set iff the two differ: down at time 10 and dragged to time 20
  gives 10, 20 and enabled.
\<close>

theorem REPEAT_tool_gesture:
  assumes tool: "currentTool s = REPEAT"
  shows
    "(over_tracks p s \<and> \<not> abRepeatSet s \<longrightarrow>
        (\<exists>s'. mouseDown X 0 p s = Ok s' \<and> abRepeatSetting s'
           \<and> repeatA s' = Some (pixelToTime s (pos_x p))
           \<and> repeatB s' = Some (pixelToTime s (pos_x p))))
     \<and> (over_tracks p s \<and> abRepeatSet s \<longrightarrow>
        (\<exists>s'. mouseDown X 0 p s = Ok s' \<and> abRepeatSetting s'
           \<and> (if pos_x p < timeToPixel s ((num (repeatA s) + num (repeatB s)) / 2)
               then repeatA s' = Some (pixelToTime s (pos_x p)) \<and> repeatB s' = repeatB s
               else repeatB s' = Some (pixelToTime s (pos_x p)) \<and> repeatA s' = repeatA s)))
     \<and> (abRepeatSetting s \<and> \<not> scrubActive s \<and> scrollInterval s = NoInterval \<longrightarrow>
        (\<exists>s'. mouseMove X p s = Ok s'
           \<and> (if pos_x p < timeToPixel s ((num (repeatA s) + num (repeatB s)) / 2)
               then repeatA s' = Some (pixelToTime s (pos_x p)) \<and> repeatB s' = repeatB s
               else repeatB s' = Some (pixelToTime s (pos_x p)) \<and> repeatA s' = repeatA s)))
     \<and> (mouseDownFlag s \<and> \<not> sliderActive s \<and> activeElement s = NoElement
          \<and> (repeatA s = None) = (repeatB s = None) \<longrightarrow>
        (\<exists>s'. mouseUp X 0 p s = Ok s' \<and> abRepeatOn s' = (repeatA s \<noteq> repeatB s)
           \<and> repeatA s' = repeatA s \<and> repeatB s' = repeatB s \<and> \<not> abRepeatSetting s'))
     \<and> (over_tracks p s \<and> \<not> abRepeatSet s \<and> \<not> scrubActive s \<and> scrollInterval s = NoInterval
          \<and> \<not> sliderActive s \<and> activeElement s = NoElement
          \<and> 0 < width s \<and> view_startTime s < view_endTime s \<and> pos_x p \<le> pos_x p2 \<longrightarrow>
        repeatA (after X [On_mouseDown 0 p, On_mouseMove p2, On_mouseUp 0 p3] s)
           = Some (pixelToTime s (pos_x p))
        \<and> repeatB (after X [On_mouseDown 0 p, On_mouseMove p2, On_mouseUp 0 p3] s)
           = Some (pixelToTime s (pos_x p2))
        \<and> abRepeatOn (after X [On_mouseDown 0 p, On_mouseMove p2, On_mouseUp 0 p3] s)
           = (pos_x p \<noteq> pos_x p2))"
proof (intro conjI impI)
  assume h: "over_tracks p s \<and> \<not> abRepeatSet s"
  then show "\<exists>s'. mouseDown X 0 p s = Ok s' \<and> abRepeatSetting s'
           \<and> repeatA s' = Some (pixelToTime s (pos_x p))
           \<and> repeatB s' = Some (pixelToTime s (pos_x p))"
    by (simp add: mouseDown_REPEAT [OF tool] resetABPoints_points)
next
  assume h: "over_tracks p s \<and> abRepeatSet s"
  then show "\<exists>s'. mouseDown X 0 p s = Ok s' \<and> abRepeatSetting s'
           \<and> (if pos_x p < timeToPixel s ((num (repeatA s) + num (repeatB s)) / 2)
               then repeatA s' = Some (pixelToTime s (pos_x p)) \<and> repeatB s' = repeatB s
               else repeatB s' = Some (pixelToTime s (pos_x p)) \<and> repeatA s' = repeatA s)"
    by (simp add: mouseDown_REPEAT [OF tool] updateABPoints_points)
next
  assume h: "abRepeatSetting s \<and> \<not> scrubActive s \<and> scrollInterval s = NoInterval"
  then show "\<exists>s'. mouseMove X p s = Ok s'
           \<and> (if pos_x p < timeToPixel s ((num (repeatA s) + num (repeatB s)) / 2)
               then repeatA s' = Some (pixelToTime s (pos_x p)) \<and> repeatB s' = repeatB s
               else repeatB s' = Some (pixelToTime s (pos_x p)) \<and> repeatA s' = repeatA s)"
    by (simp add: mouseMove_REPEAT [OF tool] updateABPoints_points)
next
  assume h: "mouseDownFlag s \<and> \<not> sliderActive s \<and> activeElement s = NoElement
          \<and> (repeatA s = None) = (repeatB s = None)"
  then obtain s' where u: "mouseUp X 0 p s = Ok s'"
    "abRepeatOn s' = (repeatA s \<noteq> repeatB s \<and> repeatA s \<noteq> None \<and> repeatB s \<noteq> None)"
    "repeatA s' = repeatA s" "repeatB s' = repeatB s" "\<not> abRepeatSetting s'"
    using mouseUp_REPEAT [OF tool, where X = X and p = p] by blast
  have "abRepeatOn s' = (repeatA s \<noteq> repeatB s)"
    using u(2) h by auto
  with u show "\<exists>s'. mouseUp X 0 p s = Ok s' \<and> abRepeatOn s' = (repeatA s \<noteq> repeatB s)
           \<and> repeatA s' = repeatA s \<and> repeatB s' = repeatB s \<and> \<not> abRepeatSetting s'"
    by simp
next
  assume h: "over_tracks p s \<and> \<not> abRepeatSet s \<and> \<not> scrubActive s \<and> scrollInterval s = NoInterval
          \<and> \<not> sliderActive s \<and> activeElement s = NoElement
          \<and> 0 < width s \<and> view_startTime s < view_endTime s \<and> pos_x p \<le> pos_x p2"
  then have r: "repeatA (after X [On_mouseDown 0 p, On_mouseMove p2, On_mouseUp 0 p3] s)
           = Some (pixelToTime s (pos_x p))
     \<and> repeatB (after X [On_mouseDown 0 p, On_mouseMove p2, On_mouseUp 0 p3] s)
           = Some (pixelToTime s (pos_x p2))
     \<and> abRepeatOn (after X [On_mouseDown 0 p, On_mouseMove p2, On_mouseUp 0 p3] s)
           = (pos_x p \<noteq> pos_x p2)"
    using repeat_drag [OF tool, where ?p1.0 = p and X = X and ?p2.0 = p2 and ?p3.0 = p3] by blast
  from r show "repeatA (after X [On_mouseDown 0 p, On_mouseMove p2, On_mouseUp 0 p3] s)
           = Some (pixelToTime s (pos_x p))" by blast
  from r show "repeatB (after X [On_mouseDown 0 p, On_mouseMove p2, On_mouseUp 0 p3] s)
           = Some (pixelToTime s (pos_x p2))" by blast
  from r show "abRepeatOn (after X [On_mouseDown 0 p, On_mouseMove p2, On_mouseUp 0 p3] s)
           = (pos_x p \<noteq> pos_x p2)" by blast
qed

lemma repeat_ready_fields:
  "currentTool repeat_ready = REPEAT \<and> height repeat_ready = 120 \<and> width repeat_ready = 600
   \<and> view_startTime repeat_ready = 0 \<and> view_endTime repeat_ready = 60
   \<and> repeatA repeat_ready = None \<and> repeatB repeat_ready = None
   \<and> \<not> scrubActive repeat_ready \<and> \<not> sliderActive repeat_ready
   \<and> scrollInterval repeat_ready = NoInterval \<and> activeElement repeat_ready = NoElement"
  by (simp add: repeat_ready_def with_en_fields)

lemma repeat_dragging_fields:
  "currentTool repeat_dragging = REPEAT \<and> height repeat_dragging = 120
   \<and> width repeat_dragging = 600
   \<and> view_startTime repeat_dragging = 0 \<and> view_endTime repeat_dragging = 60
   \<and> repeatA repeat_dragging = Some 10 \<and> repeatB repeat_dragging = Some 20
   \<and> abRepeatSetting repeat_dragging \<and> mouseDownFlag repeat_dragging
   \<and> \<not> scrubActive repeat_dragging \<and> \<not> sliderActive repeat_dragging
   \<and> scrollInterval repeat_dragging = NoInterval \<and> activeElement repeat_dragging = NoElement"
  by (simp add: repeat_dragging_def repeat_ready_fields)

theorem REPEAT_tool_gesture_witness:
  "currentTool repeat_ready = REPEAT \<and> currentTool repeat_dragging = REPEAT
   \<and> over_tracks \<lparr>pos_x = 100, pos_y = 50\<rparr> repeat_ready \<and> \<not> abRepeatSet repeat_ready
   \<and> pixelToTime repeat_ready 100 = 10 \<and> pixelToTime repeat_ready 200 = 20
   \<and> repeatA (after quiet [On_mouseDown 0 \<lparr>pos_x = 100, pos_y = 50\<rparr>,
                             On_mouseMove \<lparr>pos_x = 200, pos_y = 50\<rparr>,
                             On_mouseUp 0 \<lparr>pos_x = 200, pos_y = 50\<rparr>] repeat_ready) = Some 10
   \<and> repeatB (after quiet [On_mouseDown 0 \<lparr>pos_x = 100, pos_y = 50\<rparr>,
                             On_mouseMove \<lparr>pos_x = 200, pos_y = 50\<rparr>,
                             On_mouseUp 0 \<lparr>pos_x = 200, pos_y = 50\<rparr>] repeat_ready) = Some 20
   \<and> abRepeatOn (after quiet [On_mouseDown 0 \<lparr>pos_x = 100, pos_y = 50\<rparr>,
                                On_mouseMove \<lparr>pos_x = 200, pos_y = 50\<rparr>,
                                On_mouseUp 0 \<lparr>pos_x = 200, pos_y = 50\<rparr>] repeat_ready)
   \<and> over_tracks \<lparr>pos_x = 120, pos_y = 50\<rparr> repeat_dragging \<and> abRepeatSet repeat_dragging
   \<and> repeatA (state_of (mouseDown quiet 0 \<lparr>pos_x = 120, pos_y = 50\<rparr> repeat_dragging)) = Some 12
   \<and> repeatB (state_of (mouseMove quiet \<lparr>pos_x = 170, pos_y = 50\<rparr> repeat_dragging)) = Some 17
   \<and> abRepeatOn (state_of (mouseUp quiet 0 \<lparr>pos_x = 170, pos_y = 50\<rparr> repeat_dragging))"
proof -
  let ?p = "\<lparr>pos_x = 100, pos_y = 50\<rparr>" and ?p2 = "\<lparr>pos_x = 200, pos_y = 50\<rparr>"
  let ?q = "\<lparr>pos_x = 120, pos_y = 50\<rparr>" and ?q2 = "\<lparr>pos_x = 170, pos_y = 50\<rparr>"
  have t1: "currentTool repeat_ready = REPEAT" and t2: "currentTool repeat_dragging = REPEAT"
    using repeat_ready_fields repeat_dragging_fields by simp_all
  have a: "over_tracks ?p repeat_ready" "\<not> abRepeatSet repeat_ready"
    "over_tracks ?q repeat_dragging" "abRepeatSet repeat_dragging"
    using repeat_ready_fields repeat_dragging_fields
    by (simp_all add: over_tracks_def abRepeatSet_def keyHeight_def trackPadding_def
        sliderHeight_def)
  have px: "pixelToTime repeat_ready 100 = 10" "pixelToTime repeat_ready 200 = 20"
    "pixelToTime repeat_dragging 120 = 12" "pixelToTime repeat_dragging 170 = 17"
    "timeToPixel repeat_dragging 15 = 150"
    using repeat_ready_fields repeat_dragging_fields
    by (simp_all add: pixelToTime_def timeToPixel_def zoom_def)
  note ready = REPEAT_tool_gesture [OF t1, where p = ?p and X = quiet and ?p2.0 = ?p2
      and ?p3.0 = ?p2]
  note down_at = REPEAT_tool_gesture [OF t2, where p = ?q and X = quiet and ?p2.0 = ?q
      and ?p3.0 = ?q]
  note drag_at = REPEAT_tool_gesture [OF t2, where p = ?q2 and X = quiet and ?p2.0 = ?q2
      and ?p3.0 = ?q2]
  have h_drag: "over_tracks ?p repeat_ready \<and> \<not> abRepeatSet repeat_ready
      \<and> \<not> scrubActive repeat_ready \<and> scrollInterval repeat_ready = NoInterval
      \<and> \<not> sliderActive repeat_ready \<and> activeElement repeat_ready = NoElement
      \<and> 0 < width repeat_ready \<and> view_startTime repeat_ready < view_endTime repeat_ready
      \<and> pos_x ?p \<le> pos_x ?p2"
    using a repeat_ready_fields by simp
  have drag: "repeatA (after quiet [On_mouseDown 0 ?p, On_mouseMove ?p2, On_mouseUp 0 ?p2]
                  repeat_ready) = Some 10
      \<and> repeatB (after quiet [On_mouseDown 0 ?p, On_mouseMove ?p2, On_mouseUp 0 ?p2]
                  repeat_ready) = Some 20
      \<and> abRepeatOn (after quiet [On_mouseDown 0 ?p, On_mouseMove ?p2, On_mouseUp 0 ?p2]
                  repeat_ready)"
    using ready h_drag px by simp
  have mid: "(num (repeatA repeat_dragging) + num (repeatB repeat_dragging)) / 2 = 15"
    using repeat_dragging_fields by simp
  obtain s1 where d1: "mouseDown quiet 0 ?q repeat_dragging = Ok s1"
    and d2: "if pos_x ?q < timeToPixel repeat_dragging
                 ((num (repeatA repeat_dragging) + num (repeatB repeat_dragging)) / 2)
             then repeatA s1 = Some (pixelToTime repeat_dragging (pos_x ?q))
                  \<and> repeatB s1 = repeatB repeat_dragging
             else repeatB s1 = Some (pixelToTime repeat_dragging (pos_x ?q))
                  \<and> repeatA s1 = repeatA repeat_dragging"
    using down_at a by blast
  have down: "repeatA (state_of (mouseDown quiet 0 ?q repeat_dragging)) = Some 12"
    using d1 d2 px by (simp add: mid)
  have h_move: "abRepeatSetting repeat_dragging \<and> \<not> scrubActive repeat_dragging
      \<and> scrollInterval repeat_dragging = NoInterval"
    using repeat_dragging_fields by simp
  obtain s2 where m1: "mouseMove quiet ?q2 repeat_dragging = Ok s2"
    and m2: "if pos_x ?q2 < timeToPixel repeat_dragging
                 ((num (repeatA repeat_dragging) + num (repeatB repeat_dragging)) / 2)
             then repeatA s2 = Some (pixelToTime repeat_dragging (pos_x ?q2))
                  \<and> repeatB s2 = repeatB repeat_dragging
             else repeatB s2 = Some (pixelToTime repeat_dragging (pos_x ?q2))
                  \<and> repeatA s2 = repeatA repeat_dragging"
    using drag_at h_move by blast
  have move: "repeatB (state_of (mouseMove quiet ?q2 repeat_dragging)) = Some 17"
    using m1 m2 px by (simp add: mid)
  have h_up: "mouseDownFlag repeat_dragging \<and> \<not> sliderActive repeat_dragging
      \<and> activeElement repeat_dragging = NoElement
      \<and> (repeatA repeat_dragging = None) = (repeatB repeat_dragging = None)"
    using repeat_dragging_fields by simp
  obtain s3 where u1: "mouseUp quiet 0 ?q2 repeat_dragging = Ok s3"
    and u2: "abRepeatOn s3 = (repeatA repeat_dragging \<noteq> repeatB repeat_dragging)"
    using drag_at h_up by blast
  have up: "abRepeatOn (state_of (mouseUp quiet 0 ?q2 repeat_dragging))"
    using u1 u2 repeat_dragging_fields by simp
  from t1 t2 a px drag down move up show ?thesis by simp
qed

section \<open>Track registry: index map and track array\<close>

lemmas size_defs = trackHeight_def trackPadding_def keyHeight_def sliderHeight_def

lemma order_ready_fields:
  "tracks order_ready = [Obj tr_a, Obj tr_b, Obj tr_c]
   \<and> trackIndices order_ready ''a'' = Some 0 \<and> trackIndices order_ready ''b'' = Some 1
   \<and> trackIndices order_ready ''c'' = Some 2
   \<and> height order_ready = 240 \<and> currentTool order_ready = ORDER
   \<and> activeIndex order_ready = -1 \<and> \<not> scrubActive order_ready
   \<and> \<not> sliderActive order_ready \<and> scrollInterval order_ready = NoInterval
   \<and> audio order_ready = Map.empty
   \<and> trackIndices order_ready ''hasOwnProperty'' = None"
  by (simp add: order_ready_def after_def perform_def addTextTrack_def scheduler_defs emit_def
      table_defs
      size_defs tr_a_def tr_b_def tr_c_def)

lemma order_ready_registry: "registry_ok order_ready"
proof -
  have a: "\<And>i. i < 3 \<Longrightarrow> i = 0 \<or> i = 1 \<or> i = (2::nat)" by arith
  have idx: "\<And>k i. trackIndices order_ready k = Some i \<Longrightarrow>
      (k = ''a'' \<and> i = 0) \<or> (k = ''b'' \<and> i = 1) \<or> (k = ''c'' \<and> i = 2)"
    by (simp add: order_ready_def after_def perform_def addTextTrack_def scheduler_defs emit_def
      table_defs
        size_defs tr_a_def tr_b_def tr_c_def split: if_splits)
  show ?thesis
    unfolding registry_ok_def
  proof (intro conjI allI impI)
    fix i assume "i < length (tracks order_ready)"
    then have "i = 0 \<or> i = 1 \<or> i = 2" using order_ready_fields a by simp
    then show "\<exists>t. tracks order_ready ! i = Obj t
        \<and> trackIndices order_ready (track_id t) = Some (int i)"
      using order_ready_fields by (auto simp: tr_a_def tr_b_def tr_c_def)
  next
    fix k i assume h: "trackIndices order_ready k = Some i"
    from idx [OF h] show "0 \<le> i" by auto
    from idx [OF h] show "nat i < length (tracks order_ready)"
      using order_ready_fields by auto
    from idx [OF h] show "\<exists>t. tracks order_ready ! nat i = Obj t \<and> track_id t = k"
      using order_ready_fields by (auto simp: tr_a_def tr_b_def tr_c_def)
  qed
qed

lemma order_down_fields:
  "tracks order_down = [Obj tr_a, Obj tr_b, Obj tr_c]
   \<and> trackIndices order_down ''a'' = Some 0 \<and> trackIndices order_down ''b'' = Some 1
   \<and> trackIndices order_down ''c'' = Some 2
   \<and> height order_down = 240 \<and> currentTool order_down = ORDER
   \<and> activeIndex order_down = 2 \<and> \<not> scrubActive order_down
   \<and> \<not> sliderActive order_down \<and> scrollInterval order_down = NoInterval
   \<and> audio order_down = Map.empty
   \<and> trackIndices order_down ''hasOwnProperty'' = None"
  using order_ready_fields
  by (simp add: order_down_def after_def perform_def mouseDown_def indexFromPos_def size_defs)

lemma order_removed_fields:
  "tracks order_removed = [Obj tr_b, Obj tr_c]
   \<and> trackIndices order_removed ''a'' = None \<and> trackIndices order_removed ''b'' = Some 0
   \<and> trackIndices order_removed ''c'' = Some 1
   \<and> height order_removed = 180 \<and> currentTool order_removed = ORDER
   \<and> activeIndex order_removed = 2 \<and> \<not> scrubActive order_removed
   \<and> \<not> sliderActive order_removed \<and> scrollInterval order_removed = NoInterval"
  using order_down_fields
  by (simp add: order_removed_def after_def perform_def removeTextTrack_def js_at_def
      table_defs prop_name_def
      release_audio_def emit_def size_defs tr_a_def tr_b_def tr_c_def)

lemma order_moved_throws:
  "perform quiet (On_mouseMove \<lparr>pos_x = 100, pos_y = 40\<rparr>) order_removed
     = Throw TypeError order_moved"
  using order_removed_fields
  by (simp add: order_moved_def after_def perform_def mouseMove_def indexFromPos_def
      reorder_def js_at_def table_defs js_assign_def to_slot_def size_defs tr_b_def tr_c_def)

lemma order_moved_fields:
  "tracks order_moved = [Undef, Obj tr_c, Obj tr_b]
   \<and> trackIndices order_moved ''b'' = Some 2 \<and> trackIndices order_moved ''c'' = Some 1
   \<and> currentTool order_moved = ORDER
   \<and> activeIndex order_moved = 2 \<and> \<not> scrubActive order_moved
   \<and> \<not> sliderActive order_moved \<and> scrollInterval order_moved = NoInterval"
  using order_removed_fields
  by (simp add: order_moved_def after_def perform_def mouseMove_def indexFromPos_def
      reorder_def js_at_def table_defs js_assign_def to_slot_def size_defs tr_b_def tr_c_def)

lemma order_moved_twice_fields:
  "tracks order_moved_twice = [Obj tr_b, Obj tr_c, Undef]
   \<and> trackIndices order_moved_twice ''b'' = Some 2
   \<and> trackIndices order_moved_twice ''c'' = Some 1"
  using order_moved_fields
  by (simp add: order_moved_twice_def after_def perform_def mouseMove_def indexFromPos_def
      reorder_def js_at_def table_defs js_assign_def to_slot_def size_defs tr_b_def tr_c_def)
lemma order_run_unfolded:
  "after quiet
     [Set_currentTool ORDER, Call_addTextTrack tr_a False, Call_addTextTrack tr_b False,
      Call_addTextTrack tr_c False, On_mouseDown 0 \<lparr>pos_x = 100, pos_y = 160\<rparr>,
      Call_removeTextTrack ''a'', On_mouseMove \<lparr>pos_x = 100, pos_y = 40\<rparr>,
      On_mouseMove \<lparr>pos_x = 100, pos_y = 40\<rparr>] idle = order_moved_twice"
  by (simp add: order_moved_twice_def order_moved_def order_removed_def order_down_def
      order_ready_def after_def)

lemma order_moved_twice_not_ok: "\<not> registry_ok order_moved_twice"
proof
  assume "registry_ok order_moved_twice"
  then have all: "\<forall>i < length (tracks order_moved_twice).
      \<exists>t. tracks order_moved_twice ! i = Obj t
        \<and> trackIndices order_moved_twice (track_id t) = Some (int i)"
    by (simp add: registry_ok_def)
  have "0 < length (tracks order_moved_twice)"
    using order_moved_twice_fields by simp
  with all have "\<exists>t. tracks order_moved_twice ! 0 = Obj t
        \<and> trackIndices order_moved_twice (track_id t) = Some (int 0)"
    by blast
  then have "trackIndices order_moved_twice (track_id tr_b) = Some 0"
    using order_moved_twice_fields by simp
  then show False
    using order_moved_twice_fields by (simp add: tr_b_def)
qed

text \<open>
  Claim C3 (the index map is the inverse of the track array after any sequence of add,
  remove, overwrite and reorder operations). On the code the claim fails when a track is
  removed while a reordering gesture is under way, because \<open>removeTextTrack\<close> leaves
  \<open>activeIndex\<close> as it is. In the run of \<open>order_moved_twice\<close>: after the removal the
  array holds "b", "c" and \<open>activeIndex\<close> is still 2; the first move reads
  \<open>tracks[2]\<close>, which is \<open>undefined\<close>, writes it to position 0, extends the array and
  throws a TypeError; the second move throws again and leaves track "b" at position 0
  while the map sends "b" to 2, and an \<open>undefined\<close> element at position 2.
\<close>

theorem reorder_after_removal_breaks_index_map:
  "after quiet
     [Set_currentTool ORDER, Call_addTextTrack tr_a False, Call_addTextTrack tr_b False,
      Call_addTextTrack tr_c False, On_mouseDown 0 \<lparr>pos_x = 100, pos_y = 160\<rparr>,
      Call_removeTextTrack ''a'', On_mouseMove \<lparr>pos_x = 100, pos_y = 40\<rparr>,
      On_mouseMove \<lparr>pos_x = 100, pos_y = 40\<rparr>] idle = order_moved_twice
   \<and> tracks order_removed = [Obj tr_b, Obj tr_c] \<and> activeIndex order_removed = 2
   \<and> perform quiet (On_mouseMove \<lparr>pos_x = 100, pos_y = 40\<rparr>) order_removed
        = Throw TypeError order_moved
   \<and> tracks order_moved = [Undef, Obj tr_c, Obj tr_b]
   \<and> tracks order_moved_twice = [Obj tr_b, Obj tr_c, Undef]
   \<and> tracks order_moved_twice ! 0 = Obj tr_b
   \<and> trackIndices order_moved_twice (track_id tr_b) = Some 2"
  using order_run_unfolded order_removed_fields order_moved_throws order_moved_fields
    order_moved_twice_fields
  by (simp add: tr_b_def)

section \<open>Rubber-band selection\<close>

lemma select_segments_keeps:
  "abRepeatOn (snd (select_segments st en gs s)) = abRepeatOn s
   \<and> tracks (snd (select_segments st en gs s)) = tracks s"
proof (induction gs arbitrary: s)
  case Nil
  show ?case by simp
next
  case (Cons g gs)
  show ?case
    by (cases "selected g \<or> en \<le> seg_startTime g \<or> seg_endTime g \<le> st")
       (simp_all add: split_def Let_def Cons.IH)
qed

lemma select_segments_result:
  "fst (select_segments st en gs s) = map (mark st en) gs
   \<and> selectedSegments (snd (select_segments st en gs s))
       = selectedSegments s @ map (\<lambda>g. g\<lparr>selected := True\<rparr>) (filter (hit st en) gs)
   \<and> names_of (emitted (snd (select_segments st en gs s)))
       = names_of (emitted s)
         @ map (\<lambda>g. (''select'', SegData g))
             (map (\<lambda>g. g\<lparr>selected := True\<rparr>) (filter (hit st en) gs))"
proof (induction gs arbitrary: s)
  case Nil
  show ?case by simp
next
  case (Cons g gs)
  show ?case
  proof (cases "hit st en g")
    case True
    then have c: "\<not> (selected g \<or> en \<le> seg_startTime g \<or> seg_endTime g \<le> st)"
      by (auto simp: hit_def)
    show ?thesis
      using True c by (simp add: split_def Let_def Cons.IH mark_def)
  next
    case False
    then have c: "selected g \<or> en \<le> seg_startTime g \<or> seg_endTime g \<le> st"
      by (auto simp: hit_def)
    show ?thesis
      using False c by (simp add: split_def Let_def Cons.IH mark_def)
  qed
qed

lemma select_tracks_result:
  "fst (select_tracks st en (map Obj trs) s) = map (\<lambda>t. Obj (mark_track st en t)) trs
   \<and> \<not> snd (snd (select_tracks st en (map Obj trs) s))
   \<and> selectedSegments (fst (snd (select_tracks st en (map Obj trs) s)))
       = selectedSegments s @ concat (map (newly st en) trs)
   \<and> names_of (emitted (fst (snd (select_tracks st en (map Obj trs) s))))
       = names_of (emitted s)
         @ map (\<lambda>g. (''select'', SegData g)) (concat (map (newly st en) trs))"
proof (induction trs arbitrary: s)
  case Nil
  show ?case by simp
next
  case (Cons t trs)
  show ?case
    using select_segments_result [of st en "visibleSegments t" s]
    by (simp add: split_def Let_def Cons.IH mark_track_def newly_def)
qed
lemma band_first_le:
  "(band_first tp \<le> int k) =
   (tp < keyHeight + trackPadding + real k * (trackHeight + trackPadding) + trackHeight)"
proof -
  define i0 :: real where "i0 = max 0 (tp - 35)"
  define q :: int where "q = \<lfloor>i0 / 60\<rfloor>"
  have nn: "0 \<le> i0" by (simp add: i0_def)
  have ql: "60 * real_of_int q \<le> i0"
    using of_int_floor_le [of "i0 / 60"] by (simp add: q_def)
  have "i0 / 60 < real_of_int q + 1"
    unfolding q_def by linarith
  then have qu: "i0 < 60 * real_of_int q + 60"
    by simp
  have rem: "js_rem i0 60 = i0 - 60 * real_of_int q"
    using nn by (simp add: js_rem_def q_def)
  have goal: "(tp < 35 + real k * 60 + 50) = (i0 < 60 * real k + 50)"
    by (auto simp: i0_def)
  have bf: "band_first tp = (if i0 - 60 * real_of_int q < 50 then q else \<lceil>i0 / 60\<rceil>)"
    by (simp add: band_first_def size_defs Let_def i0_def [symmetric] rem q_def [symmetric])
  have "(band_first tp \<le> int k) = (i0 < 60 * real k + 50)"
  proof (cases "i0 - 60 * real_of_int q < 50")
    case True
    have "(q \<le> int k) = (i0 < 60 * real k + 50)"
    proof
      assume "q \<le> int k"
      then have "real_of_int q \<le> real k" by linarith
      with True show "i0 < 60 * real k + 50" by linarith
    next
      assume "i0 < 60 * real k + 50"
      with ql have "real_of_int q < real_of_int (int k + 1)" by simp
      then have "q < int k + 1" by (simp only: of_int_less_iff)
      then show "q \<le> int k" by simp
    qed
    with True bf show ?thesis by simp
  next
    case False
    have "(\<lceil>i0 / 60\<rceil> \<le> int k) = (i0 < 60 * real k + 50)"
    proof
      assume "\<lceil>i0 / 60\<rceil> \<le> int k"
      then have "i0 / 60 \<le> real k" by (simp add: ceiling_le_iff)
      then show "i0 < 60 * real k + 50" by simp
    next
      assume a: "i0 < 60 * real k + 50"
      with False have "real_of_int q < real_of_int (int k)" by simp
      then have "q < int k" by (simp only: of_int_less_iff)
      then have "real_of_int q + 1 \<le> real k" by linarith
      with qu have "i0 / 60 \<le> real_of_int (int k)" by simp
      then show "\<lceil>i0 / 60\<rceil> \<le> int k" by (simp only: ceiling_le_iff)
    qed
    with False bf show ?thesis by simp
  qed
  with goal show ?thesis by (simp add: size_defs)
qed

lemma band_first_nonneg: "0 \<le> band_first tp"
proof -
  have "0 \<le> max 0 (tp - 35) / (60::real)" by simp
  then have "0 \<le> \<lfloor>max 0 (tp - 35) / (60::real)\<rfloor>" "0 \<le> \<lceil>max 0 (tp - 35) / (60::real)\<rceil>"
    by (simp_all add: le_floor_iff le_ceiling_iff)
  then show ?thesis
    by (simp add: band_first_def size_defs Let_def)
qed

lemma band_last_ge:
  "(int k \<le> band_last bt s) =
   (if height s - sliderHeight \<le> bt then k < length (tracks s)
    else keyHeight + trackPadding + real k * (trackHeight + trackPadding) \<le> bt)"
proof (cases "height s - sliderHeight \<le> bt")
  case True
  then show ?thesis by (auto simp: band_last_def Let_def)
next
  case False
  have "(int k \<le> \<lfloor>(bt - 35) / 60\<rfloor>) = (35 + real k * 60 \<le> bt)"
    by (simp add: le_floor_iff) linarith
  with False show ?thesis by (simp add: band_last_def Let_def size_defs)
qed

lemma band_last_lower:
  "keyHeight + trackPadding \<le> bt \<Longrightarrow> -1 \<le> band_last bt s"
proof -
  assume "keyHeight + trackPadding \<le> bt"
  then have "0 \<le> (bt - 35) / (60::real)" by (simp add: size_defs)
  then have "0 \<le> \<lfloor>(bt - 35) / (60::real)\<rfloor>" by (simp add: le_floor_iff)
  then have "-1 \<le> \<lfloor>(bt - 35) / (60::real)\<rfloor>" by linarith
  then show ?thesis by (simp add: band_last_def Let_def size_defs)
qed

lemma slice_bounds_mem:
  assumes "0 \<le> i" and "-1 \<le> n" and "k < len"
  shows "(slice_bound len i \<le> k \<and> k < slice_bound len (n + 1)) = (i \<le> int k \<and> int k \<le> n)"
  using assms by (auto simp: slice_bound_def)
lemma filter_upt_range:
  assumes "b \<le> n"
  shows "filter (\<lambda>k. a \<le> k \<and> k < b) [0..<n] = [a..<b]"
proof (rule sorted_distinct_set_unique)
  show "sorted (filter (\<lambda>k. a \<le> k \<and> k < b) [0..<n])"
    by (rule sorted_wrt_filter) simp
  show "distinct (filter (\<lambda>k. a \<le> k \<and> k < b) [0..<n])" by simp
  show "sorted [a..<b]" by simp
  show "distinct [a..<b]" by simp
  show "set (filter (\<lambda>k. a \<le> k \<and> k < b) [0..<n]) = set [a..<b]"
    using assms by auto
qed

lemma take_drop_upt:
  assumes "b \<le> length xs"
  shows "take (b - a) (drop a xs) = map ((!) xs) [a..<b]"
proof (rule nth_equalityI)
  show "length (take (b - a) (drop a xs)) = length (map ((!) xs) [a..<b])"
    using assms by simp
next
  fix i assume "i < length (take (b - a) (drop a xs))"
  then have "i < b - a" by simp
  then show "take (b - a) (drop a xs) ! i = map ((!) xs) [a..<b] ! i"
    using assms by simp
qed

lemma slice_bound_le: "slice_bound len b \<le> len"
  by (auto simp: slice_bound_def)

text \<open>
  The bounds \<open>slice\<close> computes select exactly the bands in the vertical span of the
  rectangle, when the rectangle's bottom is not above the time ruler's lower edge.
\<close>

lemma slice_is_span:
  assumes "k < length (tracks s)" and "keyHeight + trackPadding \<le> bt"
  shows "(slice_bound (length (tracks s)) (band_first tp) \<le> k
          \<and> k < slice_bound (length (tracks s)) (band_last bt s + 1))
         = in_span s tp bt k"
proof -
  have "(slice_bound (length (tracks s)) (band_first tp) \<le> k
          \<and> k < slice_bound (length (tracks s)) (band_last bt s + 1))
        = (band_first tp \<le> int k \<and> int k \<le> band_last bt s)"
    using band_first_nonneg band_last_lower [OF assms(2)] assms(1) by (rule slice_bounds_mem)
  also have "\<dots> = in_span s tp bt k"
    using assms(1) by (auto simp: band_first_le band_last_ge in_span_def)
  finally show ?thesis .
qed
text \<open>
  Claim C5 (release of a rubber-band drag). Let the track array hold tracks only, and let
  the drag have begun at or below the lower edge of the time ruler (as every drag that
  \<open>mouseDown\<close> starts has). Then the release returns, and with \<open>(st, en)\<close> the times at the
  rectangle's left and right edge and \<open>tp\<close>, \<open>bt\<close> its top and bottom: in every track
  whose band lies in the vertical span, exactly the visible segments that were not
  selected and whose range overlaps \<open>(st, en)\<close> become selected; every other segment and
  every other track is as before; the segments that became selected are appended, in
  order, to \<open>selectedSegments\<close>; and one 'select' notification is emitted for each of
  them, in the same order, and none for any other segment.
\<close>

theorem rubber_band_release:
  fixes s :: timeline and sel :: selection and epos :: pos
  defines "st \<equiv> pixelToTime s (min (pos_x (startPos sel)) (pos_x epos))"
    and "en \<equiv> pixelToTime s (max (pos_x (startPos sel)) (pos_x epos))"
    and "tp \<equiv> min (pos_y (startPos sel)) (pos_y epos)"
    and "bt \<equiv> max (pos_y (startPos sel)) (pos_y epos)"
  assumes trs: "tracks s = map Obj trs" and drag: "dragged sel"
    and start: "keyHeight + trackPadding \<le> pos_y (startPos sel)"
  shows "\<exists>s'. Selection_mouseUp X sel epos s = Ok s'
     \<and> length (tracks s') = length trs
     \<and> (\<forall>k < length trs.
           tracks s' ! k = Obj (if in_span s tp bt k then mark_track st en (trs ! k) else trs ! k))
     \<and> selectedSegments s' = selectedSegments s
          @ concat (map (\<lambda>k. newly st en (trs ! k)) (filter (in_span s tp bt) [0..<length trs]))
     \<and> names_of (emitted s') = names_of (emitted s)
          @ map (\<lambda>g. (''select'', SegData g))
              (concat (map (\<lambda>k. newly st en (trs ! k))
                 (filter (in_span s tp bt) [0..<length trs])))"
proof -
  define a where "a = slice_bound (length (tracks s)) (band_first tp)"
  define b where "b = slice_bound (length (tracks s)) (band_last bt s + 1)"
  define mid where "mid = take (b - a) (drop a trs)"
  define r where "r = select_tracks st en (map Obj mid) s"
  define s'' where
    "s'' = (fst (snd r))\<lparr>tracks := take a (tracks s) @ fst r @ drop (a + length (fst r)) (tracks s)\<rparr>"
  have len: "length (tracks s) = length trs" using trs by simp
  have ab: "a \<le> length trs" "b \<le> length trs"
    using slice_bound_le len by (simp_all add: a_def b_def)
  have bt35: "keyHeight + trackPadding \<le> bt"
    using start by (simp add: bt_def)
  have span: "\<And>k. k < length trs \<Longrightarrow> (a \<le> k \<and> k < b) = in_span s tp bt k"
  proof -
    fix k assume "k < length trs"
    then have "k < length (tracks s)" using len by simp
    from slice_is_span [OF this bt35, of tp]
    show "(a \<le> k \<and> k < b) = in_span s tp bt k" by (simp add: a_def b_def)
  qed
  have slice: "take (b - a) (drop a (tracks s)) = map Obj mid"
    by (simp add: trs mid_def take_map drop_map)
  have res: "fst r = map (\<lambda>t. Obj (mark_track st en t)) mid" "\<not> snd (snd r)"
    "selectedSegments (fst (snd r)) = selectedSegments s @ concat (map (newly st en) mid)"
    "names_of (emitted (fst (snd r))) = names_of (emitted s)
        @ map (\<lambda>g. (''select'', SegData g)) (concat (map (newly st en) mid))"
    using select_tracks_result [of st en mid s] by (simp_all add: r_def)
  have run: "Selection_mouseUp X sel epos s = Ok (Proto_render False s'')"
    using drag res(2)
    by (simp add: Selection_mouseUp_def Let_def split_def st_def [symmetric] en_def [symmetric]
        tp_def [symmetric] bt_def [symmetric] a_def [symmetric] b_def [symmetric] slice
        r_def [symmetric] s''_def)
  have lmid: "length mid = b - a"
    using ab by (simp add: mid_def)
  have tr: "tracks s'' = map Obj (take a trs) @ map (\<lambda>t. Obj (mark_track st en t)) mid
              @ map Obj (drop (a + (b - a)) trs)"
    by (simp add: s''_def res(1) trs take_map drop_map lmid)
  have l: "length (tracks s'') = length trs"
    using ab by (simp add: tr lmid)
  have nth: "\<And>k. k < length trs \<Longrightarrow>
      tracks s'' ! k = Obj (if in_span s tp bt k then mark_track st en (trs ! k) else trs ! k)"
  proof -
    fix k assume k: "k < length trs"
    consider (before) "k < a" | (inside) "a \<le> k" "k < b" | (after) "a \<le> k" "b \<le> k"
      by linarith
    then show "tracks s'' ! k
        = Obj (if in_span s tp bt k then mark_track st en (trs ! k) else trs ! k)"
    proof cases
      case before
      then have "\<not> in_span s tp bt k" using span [OF k] by simp
      with before ab show ?thesis by (simp add: tr nth_append)
    next
      case inside
      then have i: "in_span s tp bt k" using span [OF k] by simp
      have ka: "\<not> k < a" "k - a < b - a"
        using inside by arith+
      have "tracks s'' ! k = Obj (mark_track st en (mid ! (k - a)))"
        using ka ab by (simp add: tr nth_append lmid)
      also have "mid ! (k - a) = trs ! k"
        using inside ab by (simp add: mid_def)
      finally show ?thesis using i by simp
    next
      case after
      then have n: "\<not> in_span s tp bt k" using span [OF k] by simp
      have ka: "\<not> k < a" "\<not> k - a < b - a" "a + (b - a) + (k - a - (b - a)) = k"
        using after by arith+
      have "tracks s'' ! k = Obj (drop (a + (b - a)) trs ! (k - a - (b - a)))"
        using ka(1,2) ab k by (simp add: tr nth_append lmid)
      also have "drop (a + (b - a)) trs ! (k - a - (b - a)) = trs ! k"
        using ka(3) k by simp
      finally show ?thesis using n by simp
    qed
  qed
  have "mid = map ((!) trs) [a..<b]"
    using take_drop_upt [OF ab(2)] by (simp add: mid_def)
  also have "[a..<b] = filter (\<lambda>k. a \<le> k \<and> k < b) [0..<length trs]"
    using filter_upt_range [OF ab(2)] by simp
  also have "\<dots> = filter (in_span s tp bt) [0..<length trs]"
    by (rule filter_cong) (simp_all add: span)
  finally have mid_eq: "mid = map ((!) trs) (filter (in_span s tp bt) [0..<length trs])" .
  have cc: "concat (map (newly st en) mid)
      = concat (map (\<lambda>k. newly st en (trs ! k)) (filter (in_span s tp bt) [0..<length trs]))"
    by (simp add: mid_eq comp_def)
  have sel': "selectedSegments s'' = selectedSegments s
      @ concat (map (\<lambda>k. newly st en (trs ! k)) (filter (in_span s tp bt) [0..<length trs]))"
    using res(3) cc by (simp add: s''_def)
  have em: "names_of (emitted s'') = names_of (emitted s)
      @ map (\<lambda>g. (''select'', SegData g))
          (concat (map (\<lambda>k. newly st en (trs ! k)) (filter (in_span s tp bt) [0..<length trs])))"
    using res(4) cc by (simp add: s''_def)
  show ?thesis
    using run l nth sel' em by simp
qed
lemma band_demo_fields:
  "tracks band_demo = [Obj sub1, Obj sub2] \<and> height band_demo = 180
   \<and> width band_demo = 600 \<and> view_startTime band_demo = 0 \<and> view_endTime band_demo = 60
   \<and> selectedSegments band_demo = []
   \<and> names_of (emitted band_demo) = [(''addtrack'', TrackData sub1), (''addtrack'', TrackData sub2)]"
  by (simp add: band_demo_def after_def perform_def addTextTrack_def scheduler_defs emit_def
      table_defs
      size_defs sub1_def sub2_def names_of_def)

theorem rubber_band_release_witness:
  "tracks band_demo = map Obj [sub1, sub2] \<and> dragged band_sel
   \<and> keyHeight + trackPadding \<le> pos_y (startPos band_sel)
   \<and> (\<exists>s'. Selection_mouseUp quiet band_sel \<lparr>pos_x = 100, pos_y = 60\<rparr> band_demo = Ok s'
        \<and> length (tracks s') = 2
        \<and> tracks s' ! 0 = Obj (sub1\<lparr>visibleSegments :=
             [\<lparr>seg_startTime = 5, seg_endTime = 8, selected = True\<rparr>,
              \<lparr>seg_startTime = 7, seg_endTime = 9, selected = True\<rparr>,
              \<lparr>seg_startTime = 30, seg_endTime = 33, selected = False\<rparr>]\<rparr>)
        \<and> tracks s' ! 1 = Obj sub2
        \<and> selectedSegments s' = [\<lparr>seg_startTime = 5, seg_endTime = 8, selected = True\<rparr>]
        \<and> names_of (emitted s') =
             [(''addtrack'', TrackData sub1), (''addtrack'', TrackData sub2),
              (''select'', SegData \<lparr>seg_startTime = 5, seg_endTime = 8, selected = True\<rparr>)])"
proof -
  let ?e = "\<lparr>pos_x = 100, pos_y = 60\<rparr>"
  have h: "tracks band_demo = map Obj [sub1, sub2]" "dragged band_sel"
    "keyHeight + trackPadding \<le> pos_y (startPos band_sel)"
    using band_demo_fields by (simp_all add: band_sel_def size_defs)
  have t: "pixelToTime band_demo (min (pos_x (startPos band_sel)) (pos_x ?e)) = 5"
    "pixelToTime band_demo (max (pos_x (startPos band_sel)) (pos_x ?e)) = 10"
    "min (pos_y (startPos band_sel)) (pos_y ?e) = 40"
    "max (pos_y (startPos band_sel)) (pos_y ?e) = 60"
    using band_demo_fields by (simp_all add: band_sel_def pixelToTime_def zoom_def)
  have sp: "in_span band_demo 40 60 0" "\<not> in_span band_demo 40 60 (Suc 0)"
    using band_demo_fields by (simp_all add: in_span_def size_defs)
  have fl: "filter (in_span band_demo 40 60) [0..<length [sub1, sub2]] = [0]"
    using sp by (simp add: upt_rec)
  have m: "mark_track 5 10 sub1 = sub1\<lparr>visibleSegments :=
             [\<lparr>seg_startTime = 5, seg_endTime = 8, selected = True\<rparr>,
              \<lparr>seg_startTime = 7, seg_endTime = 9, selected = True\<rparr>,
              \<lparr>seg_startTime = 30, seg_endTime = 33, selected = False\<rparr>]\<rparr>"
    "newly 5 10 sub1 = [\<lparr>seg_startTime = 5, seg_endTime = 8, selected = True\<rparr>]"
    by (simp_all add: mark_track_def newly_def mark_def hit_def sub1_def)
  note R = rubber_band_release [OF h, of quiet ?e, unfolded t fl]
  then obtain s' where r: "Selection_mouseUp quiet band_sel ?e band_demo = Ok s'"
    "length (tracks s') = length [sub1, sub2]"
    "\<forall>k < length [sub1, sub2]. tracks s' ! k
        = Obj (if in_span band_demo 40 60 k then mark_track 5 10 ([sub1, sub2] ! k)
               else [sub1, sub2] ! k)"
    "selectedSegments s' = selectedSegments band_demo
        @ concat (map (\<lambda>k. newly 5 10 ([sub1, sub2] ! k)) [0])"
    "names_of (emitted s') = names_of (emitted band_demo)
        @ map (\<lambda>g. (''select'', SegData g))
            (concat (map (\<lambda>k. newly 5 10 ([sub1, sub2] ! k)) [0]))"
    by blast
  have n0: "tracks s' ! 0 = Obj (mark_track 5 10 sub1)"
    using r(3) sp(1) by simp
  have "Suc 0 < length [sub1, sub2]" by simp
  with r(3) have "tracks s' ! Suc 0
      = Obj (if in_span band_demo 40 60 (Suc 0) then mark_track 5 10 ([sub1, sub2] ! Suc 0)
             else [sub1, sub2] ! Suc 0)"
    by blast
  then have n1: "tracks s' ! 1 = Obj sub2"
    using sp(2) by simp
  have l: "length (tracks s') = 2" using r(2) by simp
  have ss: "selectedSegments s' = [\<lparr>seg_startTime = 5, seg_endTime = 8, selected = True\<rparr>]"
    using r(4) band_demo_fields by (simp add: m)
  have em: "names_of (emitted s') =
             [(''addtrack'', TrackData sub1), (''addtrack'', TrackData sub2),
              (''select'', SegData \<lparr>seg_startTime = 5, seg_endTime = 8, selected = True\<rparr>)]"
    using r(5) band_demo_fields by (simp add: m)
  from h r(1) l n0 n1 ss em show ?thesis
    by (simp add: m)
qed

end
